theory Spec2Isabelle
  imports Main "HOL-Library.Signed_Division"
begin

section \<open>Errors raised by the transpiler core\<close>

text \<open>
  Every \<open>throw\<close> and every failed \<open>assert\<close> of the TypeScript source is a value of
  this type. \<open>DivisionByZero\<close> is the \<open>Error('Attempted rational division by 0')\<close> of the
  \<open>RationalLiteral\<close> constructor; \<open>RangeError\<close>, \<open>SyntaxError\<close> and \<open>TypeError\<close> are the
  exceptions of the JavaScript runtime itself (BigInt division by zero, \<open>BigInt(string)\<close>
  on a malformed string, a method call on \<open>undefined\<close>); \<open>UnhandledType\<close> is the
  \<open>Error("Don't know how to convert type ...")\<close> of \<open>cairoType\<close>.
\<close>

datatype error =
    DivisionByZero
  | RangeError
  | SyntaxError
  | TypeError
  | AssertionFailure
  | NotSupportedYetError
  | WillNotSupportError
  | TranspileFailedError
  | UnhandledType

definition bindE :: "error + 'a \<Rightarrow> ('a \<Rightarrow> error + 'b) \<Rightarrow> error + 'b" where
  "bindE m f = (case m of Inl e \<Rightarrow> Inl e | Inr x \<Rightarrow> f x)"

section \<open>BigInt arithmetic\<close>

text \<open>
  JavaScript's \<open>bigint\<close> is an unbounded integer. Its \<open>/\<close> truncates towards zero and its
  \<open>%\<close> takes the sign of the dividend (\<open>sdiv\<close> and \<open>smod\<close>); both throw a RangeError on a
  zero divisor, and \<open>**\<close> throws a RangeError on a negative exponent.
\<close>

definition bigint_div :: "int \<Rightarrow> int \<Rightarrow> error + int" where
  "bigint_div a b = (if b = 0 then Inl RangeError else Inr (a sdiv b))"

definition bigint_rem :: "int \<Rightarrow> int \<Rightarrow> error + int" where
  "bigint_rem a b = (if b = 0 then Inl RangeError else Inr (a smod b))"

definition bigint_pow :: "int \<Rightarrow> int \<Rightarrow> error + int" where
  "bigint_pow a b = (if b < 0 then Inl RangeError else Inr (a ^ nat b))"

section \<open>The rational literal engine (rationalLiteral.ts)\<close>

record RationalLiteral =
  numerator :: int
  denominator :: int

text \<open>The constructor: the only way the source builds a \<open>RationalLiteral\<close>.\<close>

definition RationalLiteral_new :: "int \<Rightarrow> int \<Rightarrow> error + RationalLiteral" where
  "RationalLiteral_new n d =
     (if d > 0 then Inr \<lparr>numerator = n, denominator = d\<rparr>
      else if d < 0 then Inr \<lparr>numerator = - n, denominator = - d\<rparr>
      else Inl DivisionByZero)"

definition equalValueOf :: "RationalLiteral \<Rightarrow> RationalLiteral \<Rightarrow> bool" where
  "equalValueOf a b = (numerator a * denominator b = numerator b * denominator a)"

definition greaterThan :: "RationalLiteral \<Rightarrow> RationalLiteral \<Rightarrow> bool" where
  "greaterThan a b = (numerator a * denominator b > numerator b * denominator a)"

definition add :: "RationalLiteral \<Rightarrow> RationalLiteral \<Rightarrow> error + RationalLiteral" where
  "add a b =
     (if denominator a = denominator b then
        RationalLiteral_new (numerator a + numerator b) (denominator a)
      else bindE (bigint_rem (denominator a) (denominator b)) (\<lambda>r1.
        if r1 = 0 then
          bindE (bigint_div (numerator b * denominator a) (denominator b)) (\<lambda>q.
            RationalLiteral_new (numerator a + q) (denominator a))
        else bindE (bigint_rem (denominator b) (denominator a)) (\<lambda>r2.
          if r2 = 0 then
            bindE (bigint_div (numerator a * denominator b) (denominator a)) (\<lambda>q.
              RationalLiteral_new (numerator b + q) (denominator b))
          else
            RationalLiteral_new
              (numerator a * denominator b + numerator b * denominator a)
              (denominator a * denominator b))))"

definition subtract :: "RationalLiteral \<Rightarrow> RationalLiteral \<Rightarrow> error + RationalLiteral" where
  "subtract a b =
     bindE (RationalLiteral_new (- numerator b) (denominator b)) (\<lambda>nb. add a nb)"

definition multiply :: "RationalLiteral \<Rightarrow> RationalLiteral \<Rightarrow> error + RationalLiteral" where
  "multiply a b =
     RationalLiteral_new (numerator a * numerator b) (denominator a * denominator b)"

definition divideBy :: "RationalLiteral \<Rightarrow> RationalLiteral \<Rightarrow> error + RationalLiteral" where
  "divideBy a b =
     RationalLiteral_new (numerator a * denominator b) (denominator a * numerator b)"

text \<open>\<open>toInteger\<close> returns \<open>bigint | null\<close>; \<open>None\<close> is the \<open>null\<close>.\<close>

definition toInteger :: "RationalLiteral \<Rightarrow> error + int option" where
  "toInteger a =
     bindE (bigint_rem (numerator a) (denominator a)) (\<lambda>r.
       if r = 0 then
         bindE (bigint_div (numerator a) (denominator a)) (\<lambda>q. Inr (Some q))
       else Inr None)"

text \<open>\<open>exp\<close> returns \<open>RationalLiteral | null\<close>; \<open>None\<close> is the \<open>null\<close>.\<close>

definition exp :: "RationalLiteral \<Rightarrow> RationalLiteral \<Rightarrow> error + RationalLiteral option" where
  "exp a b =
     bindE (toInteger b) (\<lambda>opt.
       case opt of
         None \<Rightarrow> Inr None
       | Some op \<Rightarrow>
           if op = 0 then
             bindE (RationalLiteral_new 1 1) (\<lambda>r. Inr (Some r))
           else if op > 0 then
             bindE (bigint_pow (numerator a) op) (\<lambda>n.
             bindE (bigint_pow (denominator a) op) (\<lambda>d.
             bindE (RationalLiteral_new n d) (\<lambda>r. Inr (Some r))))
           else if numerator a > 0 then
             bindE (bigint_pow (denominator a) (- op)) (\<lambda>n.
             bindE (bigint_pow (numerator a) (- op)) (\<lambda>d.
             bindE (RationalLiteral_new n d) (\<lambda>r. Inr (Some r))))
           else if numerator a < 0 then
             bindE (bigint_pow (- denominator a) (- op)) (\<lambda>n.
             bindE (bigint_pow (- numerator a) (- op)) (\<lambda>d.
             bindE (RationalLiteral_new n d) (\<lambda>r. Inr (Some r))))
           else
             bindE (RationalLiteral_new 0 1) (\<lambda>r. Inr (Some r)))"

definition mod_rl :: "RationalLiteral \<Rightarrow> RationalLiteral \<Rightarrow> error + RationalLiteral" where
  "mod_rl a b =
     bindE (bigint_rem (numerator a * denominator b) (numerator b * denominator a)) (\<lambda>n.
       RationalLiteral_new n (denominator a * denominator b))"

section \<open>Strings and \<open>BigInt(string)\<close>\<close>

text \<open>
  A JavaScript string is modelled as a list of 8-bit characters (code units 0 to 255).
  The string methods the parser uses are written out with their JavaScript behaviour:
  \<open>split(sep, 2)\<close> splits at every separator and keeps the first two pieces,
  \<open>replace(pattern, by)\<close> with a string pattern replaces the first literal occurrence of
  the pattern, and an index past the end of an array reads \<open>undefined\<close> (\<open>None\<close>).
\<close>

fun splitChar :: "char \<Rightarrow> string \<Rightarrow> string list" where
  "splitChar sep [] = [[]]"
| "splitChar sep (c # cs) =
     (if c = sep then [] # splitChar sep cs
      else (case splitChar sep cs of [] \<Rightarrow> [[c]] | p # ps \<Rightarrow> (c # p) # ps))"

definition split2 :: "char \<Rightarrow> string \<Rightarrow> string list" where
  "split2 sep s = take 2 (splitChar sep s)"

definition at_index :: "'a list \<Rightarrow> nat \<Rightarrow> 'a option" where
  "at_index xs i = (if i < length xs then Some (xs ! i) else None)"

fun replaceFirst :: "string \<Rightarrow> string \<Rightarrow> string \<Rightarrow> string" where
  "replaceFirst pat rep [] = (if pat = [] then rep else [])"
| "replaceFirst pat rep (c # cs) =
     (if take (length pat) (c # cs) = pat then rep @ drop (length pat) (c # cs)
      else c # replaceFirst pat rep cs)"

definition includes_str :: "string \<Rightarrow> char \<Rightarrow> bool" where
  "includes_str s c = (c \<in> set s)"

definition startsWith :: "string \<Rightarrow> string \<Rightarrow> bool" where
  "startsWith s p = (take (length p) s = p)"

text \<open>
  \<open>BigInt(s)\<close> is the StringToBigInt of ECMAScript: white space is trimmed; the empty
  string is 0; otherwise the text is a non-empty run of decimal digits with an optional
  sign, or an unsigned \<open>0x\<close>, \<open>0o\<close> or \<open>0b\<close> literal, with no digit separators; anything
  else is a SyntaxError. The white space of the model is that of the 8-bit range: TAB, LF,
  VT, FF, CR, SP and NBSP.
\<close>

definition isStrWhiteSpaceChar :: "char \<Rightarrow> bool" where
  "isStrWhiteSpaceChar c = ((of_char c :: nat) \<in> {9, 10, 11, 12, 13, 32, 160})"

definition trimString :: "string \<Rightarrow> string" where
  "trimString s =
     rev (dropWhile isStrWhiteSpaceChar (rev (dropWhile isStrWhiteSpaceChar s)))"

definition digitValue :: "char \<Rightarrow> nat option" where
  "digitValue c =
     (let n = (of_char c :: nat) in
      if 48 \<le> n \<and> n \<le> 57 then Some (n - 48)
      else if 97 \<le> n \<and> n \<le> 102 then Some (n - 87)
      else if 65 \<le> n \<and> n \<le> 70 then Some (n - 55)
      else None)"

fun parseDigits :: "nat \<Rightarrow> nat \<Rightarrow> string \<Rightarrow> nat option" where
  "parseDigits radix acc [] = Some acc"
| "parseDigits radix acc (c # cs) =
     (case digitValue c of
        None \<Rightarrow> None
      | Some v \<Rightarrow> if v < radix then parseDigits radix (acc * radix + v) cs else None)"

definition parseNumeral :: "nat \<Rightarrow> string \<Rightarrow> error + int" where
  "parseNumeral radix ds =
     (if ds = [] then Inl SyntaxError
      else case parseDigits radix 0 ds of
             None \<Rightarrow> Inl SyntaxError
           | Some n \<Rightarrow> Inr (int n))"

definition StringToBigInt :: "string \<Rightarrow> error + int" where
  "StringToBigInt s =
     (let t = trimString s in
      if t = [] then Inr 0
      else if take 2 t = ''0x'' \<or> take 2 t = ''0X'' then parseNumeral 16 (drop 2 t)
      else if take 2 t = ''0o'' \<or> take 2 t = ''0O'' then parseNumeral 8 (drop 2 t)
      else if take 2 t = ''0b'' \<or> take 2 t = ''0B'' then parseNumeral 2 (drop 2 t)
      else if take 1 t = ''+'' then parseNumeral 10 (drop 1 t)
      else if take 1 t = ''-'' then bindE (parseNumeral 10 (drop 1 t)) (\<lambda>n. Inr (- n))
      else parseNumeral 10 t)"

text \<open>\<open>BigInt(undefined)\<close>, reached through an array index past the end, is a TypeError.\<close>

definition BigInt :: "string option \<Rightarrow> error + int" where
  "BigInt v = (case v of None \<Rightarrow> Inl TypeError | Some s \<Rightarrow> StringToBigInt s)"

text \<open>The decimal text of a bigint, as the template literal \<open>`${n}`\<close> prints it.\<close>

definition digitChar :: "nat \<Rightarrow> char" where
  "digitChar d = char_of (48 + d)"

fun natToString :: "nat \<Rightarrow> string" where
  "natToString n =
     (if n < 10 then [digitChar n] else natToString (n div 10) @ [digitChar (n mod 10)])"

declare natToString.simps [simp del]

definition bigintToString :: "int \<Rightarrow> string" where
  "bigintToString i =
     (if i < 0 then CHR ''-'' # natToString (nat (- i)) else natToString (nat i))"

text \<open>
  The characters of a printed rational: decimal digits, the sign and the fraction bar.
\<close>

definition isDecimalDigit :: "char \<Rightarrow> bool" where
  "isDecimalDigit c = (48 \<le> (of_char c :: nat) \<and> (of_char c :: nat) \<le> 57)"

definition isPrintedChar :: "char \<Rightarrow> bool" where
  "isPrintedChar c = (isDecimalDigit c \<or> c = CHR ''/'' \<or> c = CHR ''-'')"

section \<open>Literal parsing and printing (rationalLiteral.ts)\<close>

definition toString :: "RationalLiteral \<Rightarrow> string" where
  "toString a = bigintToString (numerator a) @ ''/'' @ bigintToString (denominator a)"

definition intToLiteral :: "string \<Rightarrow> error + RationalLiteral" where
  "intToLiteral v = bindE (StringToBigInt v) (\<lambda>n. RationalLiteral_new n 1)"

text \<open>
  The two \<open>replace\<close> calls of \<open>decimalToLiteral\<close> are given the strings \<open>'/^0+/'\<close> and
  \<open>'/0+$'\<close>, not regular expressions, so they remove a literal occurrence of that text.
\<close>

definition decimalToLiteral :: "string \<Rightarrow> error + RationalLiteral" where
  "decimalToLiteral v =
     (let parts = split2 (CHR ''.'') v in
      case at_index parts 0 of
        None \<Rightarrow> Inl TypeError
      | Some p0 \<Rightarrow>
         (let intPart = replaceFirst ''/^0+/'' [] p0 in
          case at_index parts 1 of
            None \<Rightarrow> Inl TypeError
          | Some p1 \<Rightarrow>
             (let decimalPart = replaceFirst ''/0+$'' [] p1 in
              if intPart = [] \<and> decimalPart = [] then RationalLiteral_new 0 1
              else
                bindE (StringToBigInt (intPart @ decimalPart)) (\<lambda>n.
                bindE (bigint_pow 10 (int (length decimalPart))) (\<lambda>d.
                RationalLiteral_new n d)))))"

definition scientificNotationToLiteral :: "string \<Rightarrow> error + RationalLiteral" where
  "scientificNotationToLiteral v =
     (let parts = split2 (CHR ''e'') v in
      case at_index parts 0 of
        None \<Rightarrow> Inl TypeError
      | Some p0 \<Rightarrow>
         bindE (if includes_str p0 (CHR ''.'') then decimalToLiteral p0 else intToLiteral p0)
           (\<lambda>coefficient.
         bindE (BigInt (at_index parts 1)) (\<lambda>exponent.
         bindE (RationalLiteral_new 10 1) (\<lambda>ten.
         bindE (RationalLiteral_new exponent 1) (\<lambda>e.
         bindE (exp ten e) (\<lambda>rationalExponentFactor.
           case rationalExponentFactor of
             None \<Rightarrow> Inl TypeError
           | Some f \<Rightarrow> multiply coefficient f))))))"

definition stringToLiteralValue :: "string \<Rightarrow> error + RationalLiteral" where
  "stringToLiteralValue v =
     (let tidiedValue = filter (\<lambda>c. c \<noteq> CHR ''_'') v in
      if startsWith tidiedValue ''0x'' then intToLiteral v
      else if includes_str tidiedValue (CHR ''e'') then scientificNotationToLiteral v
      else if includes_str tidiedValue (CHR ''.'') then decimalToLiteral v
      else intToLiteral v)"

section \<open>The type translator (typeWriter.ts)\<close>

datatype DataLocation = Storage | Memory | CallData | Default

datatype TypeNode =
    IntType nat bool
  | BoolType
  | AddressType
  | StringType
  | BytesType
  | ArrayType TypeNode "nat option"
  | MappingType TypeNode TypeNode
  | FunctionType "TypeNode list" "TypeNode list"
  | TupleType "TypeNode list"
  | PointerType TypeNode DataLocation
  | UserDefinedType string nat
  | BuiltinType string
  | BuiltinStructType string

text \<open>
  \<open>canonicalMangler\<close> (utils/utils) and the text a type node takes inside a template
  literal (\<open>`${tp.keyType}`\<close>) are not part of these sources: they are the parameters
  \<open>mangle\<close> and \<open>pp\<close>. A type node of no handled class (here \<open>TupleType\<close>) reaches
  the final \<open>throw\<close>.
\<close>

fun cairoType :: "(string \<Rightarrow> string) \<Rightarrow> (TypeNode \<Rightarrow> string) \<Rightarrow> TypeNode \<Rightarrow> error + string" where
  "cairoType mangle pp (IntType nBits signed) =
     Inr (if nBits > 251 then ''Uint256'' else ''felt'')"
| "cairoType mangle pp (ArrayType elementT len) =
     bindE (cairoType mangle pp elementT) (\<lambda>s. Inr (s @ ''*''))"
| "cairoType mangle pp BoolType = Inr ''felt''"
| "cairoType mangle pp BytesType = Inr ''felt*''"
| "cairoType mangle pp StringType = Inr ''felt''"
| "cairoType mangle pp AddressType = Inr ''felt''"
| "cairoType mangle pp (BuiltinType name) = Inr (mangle name)"
| "cairoType mangle pp (BuiltinStructType name) = Inr (mangle name)"
| "cairoType mangle pp (MappingType keyType valueType) =
     bindE (cairoType mangle pp valueType) (\<lambda>s. Inr (pp keyType @ '' => '' @ s))"
| "cairoType mangle pp (UserDefinedType name decl) = Inr (mangle name)"
| "cairoType mangle pp (FunctionType ins outs) = Inr ''felt*''"
| "cairoType mangle pp (PointerType to loc) = cairoType mangle pp to"
| "cairoType mangle pp (TupleType elements) = Inl UnhandledType"

section \<open>The typed AST (solc-typed-ast nodes used by the passes)\<close>

text \<open>
  Nodes are written with the arguments of their TypeScript constructors, in the
  constructors' order, without the redundant node-type tag (\<open>'Literal'\<close>,
  \<open>'VariableDeclarationStatement'\<close>, ...). An optional argument is an \<open>option\<close>, with
  \<open>None\<close> for \<open>undefined\<close>. The raw JSON a node may carry (\<open>raw\<close>) is kept as text.
\<close>

type_synonym raw = string

datatype LiteralKind = Number | Bool | String | HexString | UnicodeString

datatype Mutability = Mutable | Immutable | Constant

datatype StateVariableVisibility = VisibilityDefault | Private | Internal | Public

datatype TypeName =
    ElementaryTypeName nat string string string
  | Mapping nat string string TypeName TypeName
  | OtherTypeName nat string string

text \<open>
  \<open>Identifier id src typeString name referencedDeclaration\<close>,
  \<open>Literal id src typeString kind hexValue value\<close>,
  \<open>FunctionCall id src typeString vExpression vArguments\<close>,
  \<open>TupleExpression id src typeString vOriginalComponents\<close> (a component is \<open>null\<close> or an
  expression), \<open>IndexAccess id src typeString vBaseExpression vIndexExpression\<close>,
  \<open>Assignment id src typeString operator vLeftHandSide vRightHandSide\<close>.
\<close>

datatype Expression =
    Identifier nat string string string int
  | Literal nat string string LiteralKind string string
  | FunctionCall nat string string Expression "Expression list"
  | TupleExpression nat string string "Expression option list"
  | IndexAccess nat string string Expression "Expression option"
  | Assignment nat string string string Expression Expression
  | OtherExpression nat string string

fun expr_src :: "Expression \<Rightarrow> string" where
  "expr_src (Identifier i s t n r) = s"
| "expr_src (Literal i s t k h v) = s"
| "expr_src (FunctionCall i s t f as) = s"
| "expr_src (TupleExpression i s t cs) = s"
| "expr_src (IndexAccess i s t b x) = s"
| "expr_src (Assignment i s t oper l r) = s"
| "expr_src (OtherExpression i s t) = s"

record VariableDeclaration =
  decl_id :: nat
  decl_src :: string
  decl_constant :: bool
  indexed :: bool
  decl_name :: string
  scope :: nat
  stateVariable :: bool
  storageLocation :: DataLocation
  visibility :: StateVariableVisibility
  mutability :: Mutability
  typeString :: string
  decl_documentation :: "string option"
  vType :: "TypeName option"
  vValue :: "Expression option"

text \<open>
  \<open>VariableDeclarationStatement id src assignments vDeclarations vInitialValue
  documentation raw\<close> and \<open>ExpressionStatement id src vExpression documentation raw\<close>.
  The expression of an \<open>ExpressionStatement\<close> is an \<open>option\<close> because the splitter can
  hand the constructor the \<open>undefined\<close> of an out-of-range tuple component.
\<close>

datatype Statement =
    VariableDeclarationStatement nat string "nat option list" "VariableDeclaration list"
      "Expression option" "string option" "raw option"
  | ExpressionStatement nat string "Expression option" "string option" "raw option"
  | OtherStatement nat string

datatype ASTNode =
    ExpressionNode Expression
  | StatementNode Statement
  | VariableDeclarationNode VariableDeclaration
  | TypeNameNode TypeName
  | OtherNode nat

record CairoContract =
  storageAllocations :: "VariableDeclaration \<rightharpoonup> nat"

text \<open>
  The AST context (\<open>ast/ast\<close>), the mapper base class (\<open>ast/mapper\<close>), the utility
  function generator (\<open>ast.cairoUtilFuncGen\<close>), the helpers of \<open>utils/utils\<close> and the
  type queries of solc-typed-ast are not part of these sources. The passes are modelled
  over any implementation of them: a context state \<open>'ast\<close> and the operations below, each
  taking the state and returning the new one. \<open>closestCairoContract\<close> is
  \<open>getClosestParentByType(CairoContract)\<close>, \<open>vReferencedDeclaration\<close> the getter of that
  name on an Identifier, \<open>type_pp\<close> the \<open>pp()\<close> printer of a type node.
\<close>

record 'ast AST_ops =
  reserveId :: "'ast \<Rightarrow> nat \<times> 'ast"
  replaceNode :: "ASTNode \<Rightarrow> ASTNode \<Rightarrow> 'ast \<Rightarrow> error + 'ast"
  registerChild :: "ASTNode \<Rightarrow> ASTNode \<Rightarrow> 'ast \<Rightarrow> error + 'ast"
  setContextRecursive :: "ASTNode \<Rightarrow> 'ast \<Rightarrow> error + 'ast"
  storageWrite :: "VariableDeclaration \<Rightarrow> Expression \<Rightarrow> Expression \<Rightarrow> 'ast
                    \<Rightarrow> error + (Expression \<times> 'ast)"
  writeMapping :: "Expression \<Rightarrow> Expression \<Rightarrow> TypeName \<Rightarrow> Expression \<Rightarrow> 'ast
                    \<Rightarrow> error + (Expression \<times> 'ast)"
  typeNameFromTypeNode :: "TypeNode \<Rightarrow> 'ast \<Rightarrow> error + (TypeName \<times> 'ast)"
  toHexString :: "string \<Rightarrow> string"
  getNodeType :: "Expression \<Rightarrow> error + TypeNode"
  type_pp :: "TypeNode \<Rightarrow> string"
  vReferencedDeclaration :: "Expression \<Rightarrow> 'ast \<Rightarrow> ASTNode option"
  closestCairoContract :: "ASTNode \<Rightarrow> 'ast \<Rightarrow> CairoContract option"
  commonVisit :: "ASTNode \<Rightarrow> 'ast \<Rightarrow> error + 'ast"
  dispatchVisit :: "ASTNode \<Rightarrow> 'ast \<Rightarrow> error + 'ast"

section \<open>The storage-access pass (StorageVariableAccessRewriter.visitAssignment)\<close>

text \<open>
  The slot literal: \<open>new Literal(ast.reserveId(), '', 'Literal', `int_const ${allocation}`,
  LiteralKind.Number, toHexString(`${allocation}`), `${allocation}`)\<close>.
\<close>

definition slotLiteral :: "'ast AST_ops \<Rightarrow> nat \<Rightarrow> nat \<Rightarrow> Expression" where
  "slotLiteral ops newId allocation =
     Literal newId [] (''int_const '' @ natToString allocation) Number
       (toHexString ops (natToString allocation)) (natToString allocation)"

definition lookupAllocation ::
  "'ast AST_ops \<Rightarrow> Expression \<Rightarrow> VariableDeclaration \<Rightarrow> 'ast \<Rightarrow> nat option" where
  "lookupAllocation ops node decl ast =
     (case closestCairoContract ops (ExpressionNode node) ast of
        None \<Rightarrow> None
      | Some contract \<Rightarrow> storageAllocations contract decl)"

definition writeToStateVariable ::
  "'ast AST_ops \<Rightarrow> Expression \<Rightarrow> VariableDeclaration \<Rightarrow> Expression \<Rightarrow> 'ast \<Rightarrow> error + 'ast" where
  "writeToStateVariable ops node decl rhs ast =
     (case lookupAllocation ops node decl ast of
        None \<Rightarrow> Inl AssertionFailure
      | Some allocation \<Rightarrow>
          (case reserveId ops ast of (newId, ast1) \<Rightarrow>
             bindE (storageWrite ops decl (slotLiteral ops newId allocation) rhs ast1)
               (\<lambda>(call, ast2).
             bindE (replaceNode ops (ExpressionNode node) (ExpressionNode call) ast2)
               (\<lambda>ast3.
             dispatchVisit ops (ExpressionNode rhs) ast3))))"

definition writeToIndexAccess ::
  "'ast AST_ops \<Rightarrow> Expression \<Rightarrow> Expression \<Rightarrow> Expression option \<Rightarrow> Expression \<Rightarrow> 'ast
     \<Rightarrow> error + 'ast" where
  "writeToIndexAccess ops node base index rhs ast =
     bindE (getNodeType ops base) (\<lambda>lhsType.
       case lhsType of
         PointerType (MappingType keyType valueType) loc \<Rightarrow>
           (case index of
              None \<Rightarrow> Inl AssertionFailure
            | Some idx \<Rightarrow>
               (case reserveId ops ast of (newId, ast1) \<Rightarrow>
                  bindE (typeNameFromTypeNode ops keyType ast1) (\<lambda>(keyName, ast2).
                  bindE (typeNameFromTypeNode ops valueType ast2) (\<lambda>(valueName, ast3).
                  bindE (writeMapping ops base idx
                           (Mapping newId [] (type_pp ops (MappingType keyType valueType))
                              keyName valueName)
                           rhs ast3) (\<lambda>(replacementFunc, ast4).
                  bindE (replaceNode ops (ExpressionNode node)
                           (ExpressionNode replacementFunc) ast4) (\<lambda>ast5.
                  dispatchVisit ops (ExpressionNode replacementFunc) ast5))))))
       | _ \<Rightarrow> Inl NotSupportedYetError)"

text \<open>
  \<open>visitAssignment(node: Assignment, ast)\<close>. The parameter type admits Assignment nodes
  only; the last equation stands for a call the type checker rejects.
\<close>

fun visitAssignment :: "'ast AST_ops \<Rightarrow> Expression \<Rightarrow> 'ast \<Rightarrow> error + 'ast" where
  "visitAssignment ops (Assignment i s t oper (Identifier li ls lt ln lr) rhs) ast =
     (case vReferencedDeclaration ops (Identifier li ls lt ln lr) ast of
        Some (VariableDeclarationNode decl) \<Rightarrow>
          if stateVariable decl then
            writeToStateVariable ops
              (Assignment i s t oper (Identifier li ls lt ln lr) rhs) decl rhs ast
          else
            commonVisit ops
              (ExpressionNode (Assignment i s t oper (Identifier li ls lt ln lr) rhs)) ast
      | _ \<Rightarrow>
          commonVisit ops
            (ExpressionNode (Assignment i s t oper (Identifier li ls lt ln lr) rhs)) ast)"
| "visitAssignment ops (Assignment i s t oper (IndexAccess li ls lt base index) rhs) ast =
     writeToIndexAccess ops
       (Assignment i s t oper (IndexAccess li ls lt base index) rhs) base index rhs ast"
| "visitAssignment ops (Assignment i s t oper lhs rhs) ast =
     commonVisit ops (ExpressionNode (Assignment i s t oper lhs rhs)) ast"
| "visitAssignment ops node ast = Inl TypeError"

section \<open>The declaration splitter (variableDeclarationExpressionSplitter.ts)\<close>

text \<open>The state of the pass instance: the counter behind \<open>__warp_td_<n>\<close>.\<close>

record Splitter =
  lastUsedConstantId :: nat

definition generateNewConstantName :: "Splitter \<Rightarrow> string \<times> Splitter" where
  "generateNewConstantName pass =
     (''__warp_td_'' @ natToString (lastUsedConstantId pass),
      pass\<lparr>lastUsedConstantId := lastUsedConstantId pass + 1\<rparr>)"

text \<open>\<open>array.filter(notNull)\<close>.\<close>

definition filterNotNull :: "'a option list \<Rightarrow> 'a list" where
  "filterNotNull xs = List.map_filter (\<lambda>x. x) xs"

text \<open>
  The body of \<open>node.assignments.map((id, index) => ...)\<close> in the branch of a call that
  returns a tuple, as a loop over the remaining assignment ids. It threads what the
  callback mutates: the pass counter, \<open>node.vDeclarations\<close> (each temporary is pushed onto
  it), \<open>newDeclarationStatements\<close> and the context. \<open>returnType.elements[index].pp()\<close> on an
  index past the end is a TypeError.
\<close>

fun callSlots ::
  "'ast AST_ops \<Rightarrow> nat \<Rightarrow> string \<Rightarrow> nat option list \<Rightarrow> Expression option
     \<Rightarrow> string option \<Rightarrow> raw option \<Rightarrow> TypeNode list \<Rightarrow> nat \<Rightarrow> nat option list
     \<Rightarrow> Splitter \<Rightarrow> VariableDeclaration list \<Rightarrow> Statement list \<Rightarrow> 'ast
     \<Rightarrow> error + (nat option list \<times> Splitter \<times> VariableDeclaration list \<times> Statement list \<times> 'ast)"
  where
  "callSlots ops nid src asg init doc rw elements index [] pass decls stmts ast =
     Inr ([], pass, decls, stmts, ast)"
| "callSlots ops nid src asg init doc rw elements index (None # rest) pass decls stmts ast =
     bindE (callSlots ops nid src asg init doc rw elements (Suc index) rest pass decls stmts ast)
       (\<lambda>(ids, st). Inr (None # ids, st))"
| "callSlots ops nid src asg init doc rw elements index (Some i # rest) pass decls stmts ast =
     (case find (\<lambda>decl. decl_id decl = i) decls of
        None \<Rightarrow> Inl AssertionFailure
      | Some oldDeclaration \<Rightarrow>
         (case at_index elements index of
            None \<Rightarrow> Inl TypeError
          | Some elementT \<Rightarrow>
             if typeString oldDeclaration = type_pp ops elementT then
               bindE (callSlots ops nid src asg init doc rw elements (Suc index) rest
                        pass decls stmts ast)
                 (\<lambda>(ids, st). Inr (Some i # ids, st))
             else
               (case reserveId ops ast of (declId, ast1) \<Rightarrow>
                case generateNewConstantName pass of (newName, pass1) \<Rightarrow>
                case reserveId ops ast1 of (typeId, ast2) \<Rightarrow>
                (let newDeclaration =
                       \<lparr>decl_id = declId, decl_src = src, decl_constant = True,
                        indexed = False, decl_name = newName,
                        scope = scope oldDeclaration, stateVariable = False,
                        storageLocation = Default, visibility = VisibilityDefault,
                        mutability = Constant, typeString = type_pp ops elementT,
                        decl_documentation = None,
                        vType = Some (ElementaryTypeName typeId src
                                        (type_pp ops elementT) (type_pp ops elementT)),
                        vValue = None\<rparr>;
                     decls1 = decls @ [newDeclaration]
                 in
                 bindE (registerChild ops (VariableDeclarationNode newDeclaration)
                          (StatementNode
                             (VariableDeclarationStatement nid src asg decls1 init doc rw))
                          ast2) (\<lambda>ast3.
                 case reserveId ops ast3 of (stmtId, ast4) \<Rightarrow>
                 case reserveId ops ast4 of (identId, ast5) \<Rightarrow>
                 (let newDeclarationStatement =
                        VariableDeclarationStatement stmtId src
                          [Some (decl_id oldDeclaration)] [oldDeclaration]
                          (Some (Identifier identId src (typeString newDeclaration)
                                   (decl_name newDeclaration) (int (decl_id newDeclaration))))
                          None None
                  in
                  bindE (setContextRecursive ops (StatementNode newDeclarationStatement) ast5)
                    (\<lambda>ast6.
                  bindE (callSlots ops nid src asg init doc rw elements (Suc index) rest
                           pass1 decls1 (stmts @ [newDeclarationStatement]) ast6)
                    (\<lambda>(ids, st). Inr (Some (decl_id newDeclaration) # ids, st)))))))))"

text \<open>
  The body of \<open>node.assignments.map((declId, tupleIndex) => ...)\<close> in the branch of a
  TupleExpression initialiser. \<open>vOriginalComponents[tupleIndex]\<close> is \<open>undefined\<close> past the
  end (\<open>None\<close>), \<open>null\<close> (\<open>Some None\<close>) or an expression; only \<open>null\<close> is dropped by the
  test \<open>exprToAssign === null\<close>, and \<open>exprToAssign ?? undefined\<close> turns both \<open>null\<close> and
  \<open>undefined\<close> into \<open>undefined\<close>.
\<close>

definition orUndefined :: "'a option option \<Rightarrow> 'a option" where
  "orUndefined v = (case v of None \<Rightarrow> None | Some None \<Rightarrow> None | Some (Some x) \<Rightarrow> Some x)"

fun tupleSlots ::
  "'ast AST_ops \<Rightarrow> string \<Rightarrow> VariableDeclaration list \<Rightarrow> string option \<Rightarrow> raw option
     \<Rightarrow> string \<Rightarrow> Expression option list \<Rightarrow> nat \<Rightarrow> nat option list \<Rightarrow> 'ast
     \<Rightarrow> error + (Statement option list \<times> 'ast)"
  where
  "tupleSlots ops src decls doc rw isrc comps tupleIndex [] ast = Inr ([], ast)"
| "tupleSlots ops src decls doc rw isrc comps tupleIndex (None # rest) ast =
     (let exprToAssign = at_index comps tupleIndex in
      if exprToAssign = Some None then
        bindE (tupleSlots ops src decls doc rw isrc comps (Suc tupleIndex) rest ast)
          (\<lambda>(out, ast'). Inr (None # out, ast'))
      else
        (case reserveId ops ast of (newId, ast1) \<Rightarrow>
           bindE (tupleSlots ops src decls doc rw isrc comps (Suc tupleIndex) rest ast1)
             (\<lambda>(out, ast').
                Inr (Some (ExpressionStatement newId isrc (orUndefined exprToAssign)
                             (if tupleIndex = 0 then doc else None)
                             (if tupleIndex = 0 then rw else None)) # out, ast'))))"
| "tupleSlots ops src decls doc rw isrc comps tupleIndex (Some declId # rest) ast =
     (let exprToAssign = at_index comps tupleIndex in
      case find (\<lambda>child. decl_id child = declId) decls of
        None \<Rightarrow> Inl AssertionFailure
      | Some decl \<Rightarrow>
         (case reserveId ops ast of (newId, ast1) \<Rightarrow>
            bindE (tupleSlots ops src decls doc rw isrc comps (Suc tupleIndex) rest ast1)
              (\<lambda>(out, ast').
                 Inr (Some (VariableDeclarationStatement newId src [Some declId] [decl]
                              (orUndefined exprToAssign)
                              (if tupleIndex = 0 then doc else None)
                              (if tupleIndex = 0 then rw else None)) # out, ast'))))"

text \<open>
  \<open>splitDeclaration(node: VariableDeclarationStatement, ast)\<close>. The last equation stands
  for a call with another kind of statement, which the parameter type excludes.
\<close>

fun splitDeclaration ::
  "'ast AST_ops \<Rightarrow> Splitter \<Rightarrow> Statement \<Rightarrow> 'ast
     \<Rightarrow> error + (Statement list \<times> Splitter \<times> 'ast)"
  where
  "splitDeclaration ops pass (VariableDeclarationStatement nid src asg decls init doc rw) ast =
     (if length decls = 1 then
        Inr ([VariableDeclarationStatement nid src asg decls init doc rw], pass, ast)
      else
        case init of
          None \<Rightarrow> Inl AssertionFailure
        | Some (FunctionCall ci cs ct callee args) \<Rightarrow>
            bindE (getNodeType ops (FunctionCall ci cs ct callee args)) (\<lambda>returnType.
              case returnType of
                TupleType elements \<Rightarrow>
                  bindE (callSlots ops nid src asg init doc rw elements 0 asg pass decls [] ast)
                    (\<lambda>(newAssignedIds, pass', decls', newDeclarationStatements, ast').
                       Inr (VariableDeclarationStatement nid src newAssignedIds
                              (filter (\<lambda>decl. Some (decl_id decl) \<in> set newAssignedIds) decls')
                              init doc rw
                            # newDeclarationStatements, pass', ast'))
              | _ \<Rightarrow>
                  Inr ([VariableDeclarationStatement nid src asg decls init doc rw], pass, ast))
        | Some (TupleExpression ti ts tt comps) \<Rightarrow>
            bindE (tupleSlots ops src decls doc rw ts comps 0 asg ast)
              (\<lambda>(out, ast'). Inr (filterNotNull out, pass, ast'))
        | Some other \<Rightarrow> Inl TranspileFailedError)"
| "splitDeclaration ops pass node ast = Inl TypeError"

section \<open>What the specification says the splitter emits\<close>

text \<open>
  The shape of an emitted statement, without its fresh identifier, source span and
  annotations: an expression evaluated for its effect, or one declaration bound under its
  assignment id with an optional initialiser.
\<close>

datatype emitted =
    EmitExpression Expression
  | EmitDeclaration nat VariableDeclaration "Expression option"

fun shape :: "Statement \<Rightarrow> emitted option" where
  "shape (ExpressionStatement i s (Some e) doc rw) = Some (EmitExpression e)"
| "shape (VariableDeclarationStatement i s [Some d] [decl] init doc rw) =
     Some (EmitDeclaration d decl init)"
| "shape other = None"

text \<open>
  Following the specification's words, for a slot with assignment id \<open>L\<close> and component
  \<open>R\<close>: both null, nothing; \<open>L\<close> null and \<open>R\<close> not, the expression statement of \<open>R\<close>;
  \<open>L\<close> not null, the declaration statement of \<open>L\<close>, its declaration and \<open>R\<close> if any.
\<close>

fun slot_spec :: "VariableDeclaration list \<Rightarrow> nat option \<times> Expression option \<Rightarrow> emitted list" where
  "slot_spec decls (None, None) = []"
| "slot_spec decls (None, Some r) = [EmitExpression r]"
| "slot_spec decls (Some l, r) =
     (case find (\<lambda>decl. decl_id decl = l) decls of
        None \<Rightarrow> []
      | Some decl \<Rightarrow> [EmitDeclaration l decl r])"

definition split_spec ::
  "VariableDeclaration list \<Rightarrow> nat option list \<Rightarrow> Expression option list \<Rightarrow> emitted list" where
  "split_spec decls asg comps = concat (map (slot_spec decls) (zip asg comps))"

fun stmt_documentation :: "Statement \<Rightarrow> string option" where
  "stmt_documentation (VariableDeclarationStatement i s asg decls init doc rw) = doc"
| "stmt_documentation (ExpressionStatement i s e doc rw) = doc"
| "stmt_documentation (OtherStatement i s) = None"

fun stmt_raw :: "Statement \<Rightarrow> raw option" where
  "stmt_raw (VariableDeclarationStatement i s asg decls init doc rw) = rw"
| "stmt_raw (ExpressionStatement i s e doc rw) = rw"
| "stmt_raw (OtherStatement i s) = None"

section \<open>A recording context\<close>

text \<open>
  A sample implementation of the context operations, used to run the passes on concrete
  trees: identifiers are handed out in increasing order and every call on the context, the
  generator or the mapper is appended to a log. Its \<open>storageWrite\<close> and \<open>writeMapping\<close>
  build a call of a named helper on their arguments; the types of expressions and the
  printer of type nodes are parameters.
\<close>

datatype ast_call =
    ReplaceNode ASTNode ASTNode
  | RegisterChild ASTNode ASTNode
  | SetContextRecursive ASTNode
  | StorageWrite VariableDeclaration Expression Expression
  | WriteMapping Expression Expression TypeName Expression
  | CommonVisit ASTNode
  | DispatchVisit ASTNode

record recorder =
  nextId :: nat
  calls :: "ast_call list"
  referenced :: "int \<rightharpoonup> ASTNode"
  contract :: "CairoContract option"

definition record_call :: "ast_call \<Rightarrow> recorder \<Rightarrow> recorder" where
  "record_call c r = r\<lparr>calls := calls r @ [c]\<rparr>"

definition recorder_ops ::
  "(Expression \<rightharpoonup> TypeNode) \<Rightarrow> (TypeNode \<Rightarrow> string) \<Rightarrow> recorder AST_ops" where
  "recorder_ops nodeTypes printer =
     \<lparr>reserveId = (\<lambda>r. (nextId r, r\<lparr>nextId := nextId r + 1\<rparr>)),
      replaceNode = (\<lambda>old new r. Inr (record_call (ReplaceNode old new) r)),
      registerChild = (\<lambda>child parent r. Inr (record_call (RegisterChild child parent) r)),
      setContextRecursive = (\<lambda>n r. Inr (record_call (SetContextRecursive n) r)),
      storageWrite = (\<lambda>decl lit rhs r.
         Inr (FunctionCall (nextId r) [] ''tuple()''
                (Identifier (nextId r + 1) [] ''function'' ''storageWrite'' 0) [lit, rhs],
              record_call (StorageWrite decl lit rhs) (r\<lparr>nextId := nextId r + 2\<rparr>))),
      writeMapping = (\<lambda>base idx tn rhs r.
         Inr (FunctionCall (nextId r) [] ''tuple()''
                (Identifier (nextId r + 1) [] ''function'' ''writeMapping'' 0) [base, idx, rhs],
              record_call (WriteMapping base idx tn rhs) (r\<lparr>nextId := nextId r + 2\<rparr>))),
      typeNameFromTypeNode = (\<lambda>t r.
         Inr (OtherTypeName (nextId r) [] [], r\<lparr>nextId := nextId r + 1\<rparr>)),
      toHexString = (\<lambda>s. s),
      getNodeType = (\<lambda>e. case nodeTypes e of None \<Rightarrow> Inl TypeError | Some t \<Rightarrow> Inr t),
      type_pp = printer,
      vReferencedDeclaration = (\<lambda>e r.
         case e of Identifier i s t n ref \<Rightarrow> referenced r ref | _ \<Rightarrow> None),
      closestCairoContract = (\<lambda>n r. contract r),
      commonVisit = (\<lambda>n r. Inr (record_call (CommonVisit n) r)),
      dispatchVisit = (\<lambda>n r. Inr (record_call (DispatchVisit n) r))\<rparr>"

text \<open>Sample nodes and contexts for running the passes.\<close>

definition sample_decl :: "nat \<Rightarrow> string \<Rightarrow> string \<Rightarrow> bool \<Rightarrow> VariableDeclaration" where
  "sample_decl i n t isState =
     \<lparr>decl_id = i, decl_src = [], decl_constant = False, indexed = False, decl_name = n,
      scope = 0, stateVariable = isState, storageLocation = Default,
      visibility = (if isState then Internal else VisibilityDefault), mutability = Mutable,
      typeString = t, decl_documentation = None,
      vType = Some (ElementaryTypeName (i + 100) [] t t), vValue = None\<rparr>"

definition sample_literal :: "nat \<Rightarrow> string \<Rightarrow> Expression" where
  "sample_literal i v = Literal i [] (''int_const '' @ v) Number [] v"

definition empty_recorder :: recorder where
  "empty_recorder = \<lparr>nextId = 1000, calls = [], referenced = Map.empty, contract = None\<rparr>"

definition sample_assignment :: Expression where
  "sample_assignment =
     Assignment 20 ''20:5:0'' ''uint256'' ''=''
       (Identifier 21 ''20:1:0'' ''uint256'' ''x'' 5) (sample_literal 22 ''5'')"

definition sample_context :: "CairoContract option \<Rightarrow> recorder" where
  "sample_context c =
     \<lparr>nextId = 1000, calls = [],
      referenced = [5 \<mapsto> VariableDeclarationNode (sample_decl 5 ''x'' ''uint256'' True)],
      contract = c\<rparr>"

text \<open>The statements a run of \<open>splitDeclaration\<close> returns, without the states.\<close>

definition emitted_statements ::
  "error + (Statement list \<times> Splitter \<times> 'ast) \<Rightarrow> error + Statement list" where
  "emitted_statements res = (case res of Inl e \<Rightarrow> Inl e | Inr (stmts, pass, ast) \<Rightarrow> Inr stmts)"

section \<open>Properties\<close>

lemma bindE_Inl [simp]: "bindE (Inl e) f = Inl e"
  by (simp add: bindE_def)

lemma bindE_Inr [simp]: "bindE (Inr x) f = f x"
  by (simp add: bindE_def)

subsection \<open>The rational engine\<close>

lemma RationalLiteral_new_pos: "RationalLiteral_new n d = Inr r \<Longrightarrow> 0 < denominator r"
  by (auto simp: RationalLiteral_new_def split: if_splits)

lemma bindE_new_pos:
  "bindE m (\<lambda>x. RationalLiteral_new (f x) (g x)) = Inr r \<Longrightarrow> 0 < denominator r"
  by (cases m) (auto dest: RationalLiteral_new_pos)

lemma add_pos: "add a b = Inr r \<Longrightarrow> 0 < denominator r"
  unfolding add_def
  by (auto simp: bindE_def bigint_rem_def bigint_div_def
      split: if_splits sum.splits dest: RationalLiteral_new_pos)

lemma subtract_pos: "subtract a b = Inr r \<Longrightarrow> 0 < denominator r"
  unfolding subtract_def
  by (auto simp: bindE_def split: sum.splits dest: add_pos)

lemma exp_pos: "exp a b = Inr (Some r) \<Longrightarrow> 0 < denominator r"
  unfolding exp_def
  by (auto simp: bindE_def split: sum.splits option.splits if_splits
      dest: RationalLiteral_new_pos)

lemma mod_pos: "mod_rl a b = Inr r \<Longrightarrow> 0 < denominator r"
  unfolding mod_rl_def by (rule bindE_new_pos)

lemmas rl_eval = RationalLiteral_new_def add_def subtract_def multiply_def divideBy_def
  exp_def mod_rl_def toInteger_def bigint_rem_def bigint_div_def bigint_pow_def
  signed_modulo_int_def signed_divide_int_def

text \<open>
  Claim C5. The constructor raises DivisionByZero on a zero denominator, negates both
  components on a negative one and keeps them on a positive one; whatever the constructor,
  \<open>add\<close>, \<open>subtract\<close>, \<open>multiply\<close>, \<open>divideBy\<close>, \<open>exp\<close> or \<open>mod\<close> returns has a strictly
  positive denominator.
\<close>

theorem denominator_positive:
  "RationalLiteral_new n 0 = Inl DivisionByZero
   \<and> (d < 0 \<longrightarrow> RationalLiteral_new n d = Inr \<lparr>numerator = - n, denominator = - d\<rparr>)
   \<and> (0 < d \<longrightarrow> RationalLiteral_new n d = Inr \<lparr>numerator = n, denominator = d\<rparr>)
   \<and> (RationalLiteral_new n d = Inr r0 \<longrightarrow> 0 < denominator r0)
   \<and> (add a b = Inr r1 \<longrightarrow> 0 < denominator r1)
   \<and> (subtract a b = Inr r2 \<longrightarrow> 0 < denominator r2)
   \<and> (multiply a b = Inr r3 \<longrightarrow> 0 < denominator r3)
   \<and> (divideBy a b = Inr r4 \<longrightarrow> 0 < denominator r4)
   \<and> (exp a b = Inr (Some r5) \<longrightarrow> 0 < denominator r5)
   \<and> (mod_rl a b = Inr r6 \<longrightarrow> 0 < denominator r6)"
  using RationalLiteral_new_pos add_pos subtract_pos exp_pos mod_pos
  by (auto simp: RationalLiteral_new_def multiply_def divideBy_def split: if_splits)

theorem denominator_positive_witness:
  "RationalLiteral_new 3 (- 4) = Inr \<lparr>numerator = - 3, denominator = 4\<rparr>
   \<and> RationalLiteral_new 3 4 = Inr \<lparr>numerator = 3, denominator = 4\<rparr>
   \<and> add \<lparr>numerator = 1, denominator = 2\<rparr> \<lparr>numerator = - 3, denominator = 1\<rparr>
       = Inr \<lparr>numerator = - 5, denominator = 2\<rparr>
   \<and> subtract \<lparr>numerator = 1, denominator = 2\<rparr> \<lparr>numerator = - 3, denominator = 1\<rparr>
       = Inr \<lparr>numerator = 7, denominator = 2\<rparr>
   \<and> multiply \<lparr>numerator = 1, denominator = 2\<rparr> \<lparr>numerator = - 3, denominator = 1\<rparr>
       = Inr \<lparr>numerator = - 3, denominator = 2\<rparr>
   \<and> divideBy \<lparr>numerator = 1, denominator = 2\<rparr> \<lparr>numerator = - 3, denominator = 1\<rparr>
       = Inr \<lparr>numerator = - 1, denominator = 6\<rparr>
   \<and> exp \<lparr>numerator = 1, denominator = 2\<rparr> \<lparr>numerator = - 3, denominator = 1\<rparr>
       = Inr (Some \<lparr>numerator = 8, denominator = 1\<rparr>)
   \<and> mod_rl \<lparr>numerator = 1, denominator = 2\<rparr> \<lparr>numerator = - 3, denominator = 1\<rparr>
       = Inr \<lparr>numerator = 1, denominator = 2\<rparr>
   \<and> 0 < denominator \<lparr>numerator = - 3, denominator = (4::int)\<rparr>
   \<and> 0 < denominator \<lparr>numerator = - 5, denominator = (2::int)\<rparr>
   \<and> 0 < denominator \<lparr>numerator = 8, denominator = (1::int)\<rparr>"
proof -
  let ?a = "\<lparr>numerator = 1, denominator = 2\<rparr>"
  let ?b = "\<lparr>numerator = - 3, denominator = 1\<rparr>"
  have e: "add ?a ?b = Inr \<lparr>numerator = - 5, denominator = 2\<rparr>"
    "subtract ?a ?b = Inr \<lparr>numerator = 7, denominator = 2\<rparr>"
    "multiply ?a ?b = Inr \<lparr>numerator = - 3, denominator = 2\<rparr>"
    "divideBy ?a ?b = Inr \<lparr>numerator = - 1, denominator = 6\<rparr>"
    "exp ?a ?b = Inr (Some \<lparr>numerator = 8, denominator = 1\<rparr>)"
    "mod_rl ?a ?b = Inr \<lparr>numerator = 1, denominator = 2\<rparr>"
    by (simp_all add: rl_eval)
  show ?thesis
    using denominator_positive [of 3 "- 4" "\<lparr>numerator = - 3, denominator = 4\<rparr>" ?a ?b
        "\<lparr>numerator = - 5, denominator = 2\<rparr>" "\<lparr>numerator = 7, denominator = 2\<rparr>"
        "\<lparr>numerator = - 3, denominator = 2\<rparr>" "\<lparr>numerator = - 1, denominator = 6\<rparr>"
        "\<lparr>numerator = 8, denominator = 1\<rparr>" "\<lparr>numerator = 1, denominator = 2\<rparr>"]
      denominator_positive [of 3 4] e
    by simp
qed

text \<open>
  Claim C2, as stated, fails. With a zero numerator and an exponent of integer value
  \<open>- 1\<close>, \<open>exp\<close> reaches its last branch and returns \<open>0/1\<close>: no DivisionByZero is raised.
  With exponent 0 the result is \<open>1/1\<close>, and with exponent 3 and base \<open>0/2\<close> it is \<open>0/8\<close>,
  not \<open>0/1\<close>.
\<close>

theorem exp_zero_base_counterexample:
  "exp \<lparr>numerator = 0, denominator = 1\<rparr> \<lparr>numerator = - 1, denominator = 1\<rparr>
     = Inr (Some \<lparr>numerator = 0, denominator = 1\<rparr>)
   \<and> exp \<lparr>numerator = 0, denominator = 1\<rparr> \<lparr>numerator = - 1, denominator = 1\<rparr>
     \<noteq> Inl DivisionByZero
   \<and> toInteger \<lparr>numerator = - 1, denominator = 1\<rparr> = Inr (Some (- 1))
   \<and> toInteger \<lparr>numerator = 0, denominator = 1\<rparr> = Inr (Some 0)
   \<and> exp \<lparr>numerator = 0, denominator = 1\<rparr> \<lparr>numerator = 0, denominator = 1\<rparr>
     = Inr (Some \<lparr>numerator = 1, denominator = 1\<rparr>)
   \<and> toInteger \<lparr>numerator = 3, denominator = 1\<rparr> = Inr (Some 3)
   \<and> exp \<lparr>numerator = 0, denominator = 2\<rparr> \<lparr>numerator = 3, denominator = 1\<rparr>
     = Inr (Some \<lparr>numerator = 0, denominator = 8\<rparr>)"
  by (simp add: rl_eval)

text \<open>
  Claim C2, amended. For a rational with numerator 0 (and positive denominator \<open>d\<close>) and an
  exponent of integer value \<open>k\<close>, \<open>exp\<close> raises nothing: it returns \<open>0/1\<close> when \<open>k < 0\<close>,
  \<open>1/1\<close> when \<open>k = 0\<close>, and \<open>0/d^k\<close> when \<open>k > 0\<close>.
\<close>

theorem exp_zero_base:
  assumes "numerator a = 0" and "0 < denominator a" and "toInteger b = Inr (Some k)"
  shows "exp a b = Inr (Some
           (if k < 0 then \<lparr>numerator = 0, denominator = 1\<rparr>
            else if k = 0 then \<lparr>numerator = 1, denominator = 1\<rparr>
            else \<lparr>numerator = 0, denominator = denominator a ^ nat k\<rparr>))"
  using assms
  by (simp add: exp_def bigint_pow_def RationalLiteral_new_def)

theorem exp_zero_base_witness:
  "numerator \<lparr>numerator = 0, denominator = 2\<rparr> = 0
   \<and> 0 < denominator \<lparr>numerator = 0, denominator = 2\<rparr>
   \<and> toInteger \<lparr>numerator = - 6, denominator = 2\<rparr> = Inr (Some (- 3))
   \<and> exp \<lparr>numerator = 0, denominator = 2\<rparr> \<lparr>numerator = - 6, denominator = 2\<rparr>
       = Inr (Some \<lparr>numerator = 0, denominator = 1\<rparr>)"
proof -
  have t: "toInteger \<lparr>numerator = - 6, denominator = 2\<rparr> = Inr (Some (- 3))"
    by (simp add: rl_eval)
  show ?thesis
    using exp_zero_base [of "\<lparr>numerator = 0, denominator = 2\<rparr>"
        "\<lparr>numerator = - 6, denominator = 2\<rparr>" "- 3", OF _ _ t] t
    by simp
qed

lemma smod_sign: "(x::int) smod y = 0 \<or> sgn (x smod y) = sgn x"
proof -
  have "0 \<le> \<bar>x\<bar> mod \<bar>y\<bar>"
    by (cases "y = 0") simp_all
  then have "\<bar>x\<bar> mod \<bar>y\<bar> = 0 \<or> sgn (\<bar>x\<bar> mod \<bar>y\<bar>) = 1"
    by (simp add: sgn_if)
  then show ?thesis
    by (auto simp: signed_modulo_int_def sgn_mult)
qed

text \<open>
  Claim C10. For rationals \<open>a\<close> and \<open>b\<close> (positive denominators) with \<open>b\<close>'s numerator
  non-zero, \<open>a.mod(b)\<close> returns the rational whose numerator is the truncated remainder of
  \<open>a.numerator * b.denominator\<close> by \<open>b.numerator * a.denominator\<close> and whose denominator is
  \<open>a.denominator * b.denominator\<close>; that numerator is zero or has the sign of \<open>a\<close>'s
  numerator, whatever the sign of \<open>b\<close>.
\<close>

theorem mod_truncated:
  assumes "0 < denominator a" and "0 < denominator b" and "numerator b \<noteq> 0"
  shows "\<exists>r. mod_rl a b = Inr r
           \<and> numerator r = (numerator a * denominator b) smod (numerator b * denominator a)
           \<and> denominator r = denominator a * denominator b
           \<and> (numerator r = 0 \<or> sgn (numerator r) = sgn (numerator a))"
proof -
  let ?x = "numerator a * denominator b" and ?y = "numerator b * denominator a"
  let ?r = "\<lparr>numerator = ?x smod ?y, denominator = denominator a * denominator b\<rparr>"
  have y: "?y \<noteq> 0" using assms by simp
  have d: "0 < denominator a * denominator b" using assms by simp
  have m: "mod_rl a b = Inr ?r"
    using y d by (simp add: mod_rl_def bigint_rem_def RationalLiteral_new_def)
  have "sgn ?x = sgn (numerator a)"
    using assms(2) by (simp add: sgn_mult)
  with smod_sign [of ?x ?y] have "?x smod ?y = 0 \<or> sgn (?x smod ?y) = sgn (numerator a)"
    by auto
  with m show ?thesis by simp
qed

theorem mod_truncated_witness:
  "mod_rl \<lparr>numerator = - 7, denominator = 2\<rparr> \<lparr>numerator = 1, denominator = 3\<rparr>
     = Inr \<lparr>numerator = - 1, denominator = 6\<rparr>
   \<and> mod_rl \<lparr>numerator = 7, denominator = 2\<rparr> \<lparr>numerator = - 1, denominator = 3\<rparr>
     = Inr \<lparr>numerator = 1, denominator = 6\<rparr>"
proof -
  have "\<exists>r. mod_rl \<lparr>numerator = - 7, denominator = 2\<rparr> \<lparr>numerator = 1, denominator = 3\<rparr> = Inr r
    \<and> numerator r = (- 21) smod 2 \<and> denominator r = 6
    \<and> (numerator r = 0 \<or> sgn (numerator r) = sgn (- 7 :: int))"
    using mod_truncated [of "\<lparr>numerator = - 7, denominator = 2\<rparr>"
        "\<lparr>numerator = 1, denominator = 3\<rparr>"]
    by simp
  moreover have "\<exists>r. mod_rl \<lparr>numerator = 7, denominator = 2\<rparr> \<lparr>numerator = - 1, denominator = 3\<rparr> = Inr r
    \<and> numerator r = 21 smod (- 2) \<and> denominator r = 6
    \<and> (numerator r = 0 \<or> sgn (numerator r) = sgn (7 :: int))"
    using mod_truncated [of "\<lparr>numerator = 7, denominator = 2\<rparr>"
        "\<lparr>numerator = - 1, denominator = 3\<rparr>"]
    by simp
  ultimately show ?thesis
    by (auto simp: signed_modulo_int_def)
qed

subsection \<open>Literal parsing\<close>

text \<open>
  Claim C1, evaluated on the code. \<open>stringToLiteralValue\<close> strips the separators into
  \<open>tidiedValue\<close>, uses that only to choose the notation, and hands the untouched \<open>value\<close>
  to \<open>BigInt\<close>, which accepts no separator: \<open>"1_000"\<close> is a SyntaxError, while \<open>"0x2a"\<close>
  and \<open>"1000"\<close> parse to \<open>42/1\<close> and \<open>1000/1\<close>.
\<close>

theorem stringToLiteralValue_separator:
  "stringToLiteralValue ''1_000'' = Inl SyntaxError
   \<and> stringToLiteralValue ''0x2a'' = Inr \<lparr>numerator = 42, denominator = 1\<rparr>
   \<and> stringToLiteralValue ''1000'' = Inr \<lparr>numerator = 1000, denominator = 1\<rparr>"
  by code_simp

subsection \<open>The type translator\<close>

text \<open>
  Claim C9. \<open>cairoType\<close> maps an Int type of more than 251 bits to \<open>Uint256\<close> and any other
  Int type to \<open>felt\<close>; an Array type to the translation of its element type followed by
  \<open>*\<close> (and to the element's failure when the element type is not handled); a Pointer type
  to the translation of its pointee. In particular Int(256) is \<open>Uint256\<close>, Int(8) is
  \<open>felt\<close>, Array(Int(8)) is \<open>felt*\<close> and Pointer(Array(Bool)) is \<open>felt*\<close>.
\<close>

theorem cairoType_rules:
  "cairoType mangle pp (IntType nBits signed)
     = Inr (if nBits > 251 then ''Uint256'' else ''felt'')
   \<and> (cairoType mangle pp t = Inr s \<longrightarrow> cairoType mangle pp (ArrayType t len) = Inr (s @ ''*''))
   \<and> (cairoType mangle pp t = Inl e \<longrightarrow> cairoType mangle pp (ArrayType t len) = Inl e)
   \<and> cairoType mangle pp (PointerType t loc) = cairoType mangle pp t
   \<and> cairoType mangle pp (IntType 256 signed) = Inr ''Uint256''
   \<and> cairoType mangle pp (IntType 8 signed) = Inr ''felt''
   \<and> cairoType mangle pp (ArrayType (IntType 8 signed) len) = Inr ''felt*''
   \<and> cairoType mangle pp (PointerType (ArrayType BoolType len) loc) = Inr ''felt*''"
  by simp

theorem cairoType_rules_witness:
  "cairoType id (\<lambda>t. []) (ArrayType (ArrayType (IntType 256 False) None) (Some 3))
     = Inr ''Uint256**''
   \<and> cairoType id (\<lambda>t. []) (ArrayType (TupleType []) None) = Inl UnhandledType"
  using cairoType_rules [of id "\<lambda>t. []" 256 False "ArrayType (IntType 256 False) None"
      "''Uint256*''" "Some 3" UnhandledType]
    cairoType_rules [of id "\<lambda>t. []" 256 False "TupleType []" "[]" None UnhandledType]
  by simp

subsection \<open>Printed rationals against the parser\<close>

lemma of_char_digitChar: "d < 10 \<Longrightarrow> (of_char (digitChar d) :: nat) = 48 + d"
  by (simp add: digitChar_def)

lemma isDecimalDigit_digitChar: "d < 10 \<Longrightarrow> isDecimalDigit (digitChar d)"
  by (simp add: isDecimalDigit_def of_char_digitChar)

lemma digitValue_digitChar: "d < 10 \<Longrightarrow> digitValue (digitChar d) = Some d"
  by (simp add: digitValue_def of_char_digitChar)

lemma natToString_digits: "\<forall>c \<in> set (natToString n). isDecimalDigit c"
proof (induction n rule: natToString.induct)
  case (1 n)
  show ?case
  proof (cases "n < 10")
    case True
    then show ?thesis by (subst natToString.simps) (simp add: isDecimalDigit_digitChar)
  next
    case False
    with 1 show ?thesis
      by (subst natToString.simps) (simp add: isDecimalDigit_digitChar)
  qed
qed

lemma natToString_nonempty: "natToString n \<noteq> []"
  by (subst natToString.simps) simp

lemma parseDigits_snoc:
  "parseDigits radix acc (xs @ [c]) =
     (case parseDigits radix acc xs of
        None \<Rightarrow> None
      | Some a \<Rightarrow> (case digitValue c of None \<Rightarrow> None
                  | Some v \<Rightarrow> if v < radix then Some (a * radix + v) else None))"
  by (induction xs arbitrary: acc) (auto split: option.splits)

lemma parseDigits_natToString: "parseDigits 10 0 (natToString n) = Some n"
proof (induction n rule: natToString.induct)
  case (1 n)
  show ?case
  proof (cases "n < 10")
    case True
    then show ?thesis by (subst natToString.simps) (simp add: digitValue_digitChar)
  next
    case False
    with 1 show ?thesis
      by (subst natToString.simps) (simp add: parseDigits_snoc digitValue_digitChar)
  qed
qed

lemma digit_not_space: "isDecimalDigit c \<Longrightarrow> \<not> isStrWhiteSpaceChar c"
  by (auto simp: isDecimalDigit_def isStrWhiteSpaceChar_def)

lemma dropWhile_hd_id: "xs \<noteq> [] \<Longrightarrow> \<not> P (hd xs) \<Longrightarrow> dropWhile P xs = xs"
  by (cases xs) simp_all

lemma trimString_id:
  assumes "s \<noteq> []" and "\<not> isStrWhiteSpaceChar (hd s)" and "\<not> isStrWhiteSpaceChar (last s)"
  shows "trimString s = s"
proof -
  have a: "dropWhile isStrWhiteSpaceChar s = s"
    using assms(1,2) by (rule dropWhile_hd_id)
  have "rev s \<noteq> []" and "\<not> isStrWhiteSpaceChar (hd (rev s))"
    using assms(1,3) by (simp_all add: hd_rev)
  then have b: "dropWhile isStrWhiteSpaceChar (rev s) = rev s"
    by (rule dropWhile_hd_id)
  show ?thesis by (simp add: trimString_def a b)
qed

lemma parseDigits_stop:
  "digitValue c = None \<Longrightarrow> parseDigits radix acc (xs @ c # rest) = None"
  by (induction xs arbitrary: acc) (auto split: option.splits)

lemma take_in_set: "take k t = xs \<Longrightarrow> c \<in> set xs \<Longrightarrow> c \<in> set t"
  by (auto dest: in_set_takeD)

lemma printed_no_prefix:
  assumes "\<forall>c \<in> set t. isPrintedChar c"
  shows "take 2 t \<noteq> ''0x''" "take 2 t \<noteq> ''0X''" "take 2 t \<noteq> ''0o''" "take 2 t \<noteq> ''0O''"
    "take 2 t \<noteq> ''0b''" "take 2 t \<noteq> ''0B''" "take 1 t \<noteq> ''+''"
proof -
  have x: "\<not> isPrintedChar (CHR ''x'')" "\<not> isPrintedChar (CHR ''X'')"
    "\<not> isPrintedChar (CHR ''o'')" "\<not> isPrintedChar (CHR ''O'')"
    "\<not> isPrintedChar (CHR ''b'')" "\<not> isPrintedChar (CHR ''B'')"
    "\<not> isPrintedChar (CHR ''+'')"
    by (simp_all add: isPrintedChar_def isDecimalDigit_def)
  show "take 2 t \<noteq> ''0x''" using assms x(1) take_in_set [of 2 t "''0x''" "CHR ''x''"] by auto
  show "take 2 t \<noteq> ''0X''" using assms x(2) take_in_set [of 2 t "''0X''" "CHR ''X''"] by auto
  show "take 2 t \<noteq> ''0o''" using assms x(3) take_in_set [of 2 t "''0o''" "CHR ''o''"] by auto
  show "take 2 t \<noteq> ''0O''" using assms x(4) take_in_set [of 2 t "''0O''" "CHR ''O''"] by auto
  show "take 2 t \<noteq> ''0b''" using assms x(5) take_in_set [of 2 t "''0b''" "CHR ''b''"] by auto
  show "take 2 t \<noteq> ''0B''" using assms x(6) take_in_set [of 2 t "''0B''" "CHR ''B''"] by auto
  show "take 1 t \<noteq> ''+''" using assms x(7) take_in_set [of 1 t "''+''" "CHR ''+''"] by auto
qed

lemma natToString_printed: "\<forall>c \<in> set (natToString n). isPrintedChar c"
  using natToString_digits by (auto simp: isPrintedChar_def)

lemma natToString_hd: "isDecimalDigit (hd (natToString n))"
  using natToString_digits [of n] natToString_nonempty [of n] by (cases "natToString n") auto

lemma natToString_last: "isDecimalDigit (last (natToString n))"
  using natToString_digits [of n] natToString_nonempty [of n] last_in_set by blast

lemma natToString_hd_not_minus: "take 1 (natToString n) \<noteq> ''-''"
proof
  assume "take 1 (natToString n) = ''-''"
  then have "hd (natToString n) = CHR ''-''"
    by (cases "natToString n") simp_all
  with natToString_hd [of n] show False by (simp add: isDecimalDigit_def)
qed

lemma StringToBigInt_natToString: "StringToBigInt (natToString n) = Inr (int n)"
proof -
  have t: "trimString (natToString n) = natToString n"
    by (rule trimString_id) (simp_all add: natToString_nonempty natToString_hd natToString_last digit_not_space)
  show ?thesis
    using printed_no_prefix [OF natToString_printed, of n] natToString_hd_not_minus [of n]
    by (simp add: StringToBigInt_def t natToString_nonempty parseNumeral_def parseDigits_natToString)
qed

lemma StringToBigInt_minus_natToString:
  "StringToBigInt (CHR ''-'' # natToString n) = Inr (- int n)"
proof -
  have "\<not> isStrWhiteSpaceChar (CHR ''-'')"
    by (simp add: isStrWhiteSpaceChar_def)
  moreover have "\<not> isStrWhiteSpaceChar (last (natToString n))"
    by (simp add: natToString_last digit_not_space)
  ultimately have t: "trimString (CHR ''-'' # natToString n) = CHR ''-'' # natToString n"
    by (intro trimString_id) (simp_all add: natToString_nonempty)
  show ?thesis
    by (simp add: StringToBigInt_def t natToString_nonempty parseNumeral_def parseDigits_natToString)
qed

lemma StringToBigInt_bigintToString: "StringToBigInt (bigintToString i) = Inr i"
  by (simp add: bigintToString_def StringToBigInt_natToString StringToBigInt_minus_natToString)

lemma bigintToString_printed: "\<forall>c \<in> set (bigintToString i). isPrintedChar c"
  using natToString_printed by (auto simp: bigintToString_def isPrintedChar_def)

lemma bigintToString_nonempty: "bigintToString i \<noteq> []"
  by (simp add: bigintToString_def natToString_nonempty)

lemma bigintToString_last: "isDecimalDigit (last (bigintToString i))"
  by (simp add: bigintToString_def natToString_nonempty natToString_last)

lemma slash_no_digit: "digitValue (CHR ''/'') = None"
  by (simp add: digitValue_def)

lemma StringToBigInt_fraction:
  "StringToBigInt (bigintToString n @ CHR ''/'' # bigintToString d) = Inl SyntaxError"
proof -
  let ?s = "bigintToString n @ CHR ''/'' # bigintToString d"
  have pr: "\<forall>c \<in> set ?s. isPrintedChar c"
    using bigintToString_printed by (auto simp: isPrintedChar_def)
  have hd: "\<not> isStrWhiteSpaceChar (hd ?s)"
    using natToString_hd [of "nat n"] natToString_nonempty
    by (auto simp: bigintToString_def isStrWhiteSpaceChar_def dest: digit_not_space)
  have "last ?s = last (bigintToString d)"
    by (simp add: bigintToString_nonempty)
  then have "\<not> isStrWhiteSpaceChar (last ?s)"
    using bigintToString_last [of d] digit_not_space by simp
  then have t: "trimString ?s = ?s"
    using hd by (intro trimString_id) simp_all
  show ?thesis
  proof (cases "n < 0")
    case True
    then have s: "?s = CHR ''-'' # (natToString (nat (- n)) @ CHR ''/'' # bigintToString d)"
      by (simp add: bigintToString_def)
    show ?thesis
      using printed_no_prefix [OF pr]
      unfolding StringToBigInt_def t Let_def
      by (simp add: s parseNumeral_def parseDigits_stop slash_no_digit)
  next
    case False
    then have s: "?s = natToString (nat n) @ CHR ''/'' # bigintToString d"
      by (simp add: bigintToString_def)
    have "take 1 ?s = take 1 (natToString (nat n))"
      using natToString_nonempty [of "nat n"] by (cases "natToString (nat n)") (simp_all add: s)
    then have m: "take 1 ?s \<noteq> ''-''"
      using natToString_hd_not_minus by simp
    have "parseNumeral 10 ?s = Inl SyntaxError"
      by (simp add: s parseNumeral_def parseDigits_stop slash_no_digit)
    then show ?thesis
      using printed_no_prefix [OF pr] m
      unfolding StringToBigInt_def t Let_def
      by simp
  qed
qed

lemma printed_is_int_literal:
  assumes "\<forall>c \<in> set s. isPrintedChar c"
  shows "stringToLiteralValue s = intToLiteral s"
proof -
  have u: "\<not> isPrintedChar (CHR ''_'')" "\<not> isPrintedChar (CHR ''e'')" "\<not> isPrintedChar (CHR ''.'')"
    by (simp_all add: isPrintedChar_def isDecimalDigit_def)
  have f: "filter (\<lambda>c. c \<noteq> CHR ''_'') s = s"
    using assms u(1) by (auto simp: filter_id_conv)
  have "CHR ''e'' \<notin> set s" "CHR ''.'' \<notin> set s"
    using assms u by auto
  then show ?thesis
    by (simp add: stringToLiteralValue_def f includes_str_def)
qed

lemma intToLiteral_pos: "intToLiteral v = Inr r \<Longrightarrow> 0 < denominator r"
  unfolding intToLiteral_def by (rule bindE_new_pos)

lemma decimalToLiteral_pos: "decimalToLiteral v = Inr r \<Longrightarrow> 0 < denominator r"
  unfolding decimalToLiteral_def Let_def
  by (auto simp: bindE_def split: option.splits if_splits sum.splits
      dest: RationalLiteral_new_pos)

lemma multiply_pos: "multiply a b = Inr r \<Longrightarrow> 0 < denominator r"
  unfolding multiply_def by (rule RationalLiteral_new_pos)

lemma scientificNotationToLiteral_pos:
  "scientificNotationToLiteral v = Inr r \<Longrightarrow> 0 < denominator r"
  unfolding scientificNotationToLiteral_def Let_def
  by (auto simp: bindE_def split: option.splits sum.splits dest: multiply_pos)

lemma stringToLiteralValue_pos:
  "stringToLiteralValue s = Inr r \<Longrightarrow> 0 < denominator r"
  unfolding stringToLiteralValue_def Let_def
  by (auto split: if_splits
      dest: intToLiteral_pos decimalToLiteral_pos scientificNotationToLiteral_pos)

lemma intToLiteral_bigintToString:
  "intToLiteral (bigintToString i) = Inr \<lparr>numerator = i, denominator = 1\<rparr>"
  by (simp add: intToLiteral_def StringToBigInt_bigintToString RationalLiteral_new_def)

text \<open>
  Claim C4, as stated, fails. \<open>"1"\<close> parses to \<open>1/1\<close>, which prints as \<open>"1/1"\<close>, and
  the parser has no notation with a fraction bar: \<open>"1/1"\<close> is a SyntaxError.
\<close>

theorem printed_form_counterexample:
  "stringToLiteralValue ''1'' = Inr \<lparr>numerator = 1, denominator = 1\<rparr>
   \<and> toString \<lparr>numerator = 1, denominator = 1\<rparr> = ''1/1''
   \<and> stringToLiteralValue ''1/1'' = Inl SyntaxError"
  by code_simp

text \<open>
  Claim C4, amended. For every literal string the parser accepts, with value \<open>r\<close>, the
  printed form \<open>numerator/denominator\<close> is rejected by the parser with a SyntaxError; the
  printed numerator and the printed denominator each parse back to that integer over 1,
  and dividing the first by the second gives a rational of equal value to \<open>r\<close>.
\<close>

theorem printed_form_rejected:
  assumes "stringToLiteralValue s = Inr r"
  shows "stringToLiteralValue (toString r) = Inl SyntaxError
       \<and> stringToLiteralValue (bigintToString (numerator r))
           = Inr \<lparr>numerator = numerator r, denominator = 1\<rparr>
       \<and> stringToLiteralValue (bigintToString (denominator r))
           = Inr \<lparr>numerator = denominator r, denominator = 1\<rparr>
       \<and> (\<exists>q. divideBy \<lparr>numerator = numerator r, denominator = 1\<rparr>
                 \<lparr>numerator = denominator r, denominator = 1\<rparr> = Inr q
              \<and> equalValueOf q r)"
proof -
  from assms have d: "0 < denominator r"
    by (rule stringToLiteralValue_pos)
  have p: "\<forall>c \<in> set (toString r). isPrintedChar c"
    using bigintToString_printed by (auto simp: toString_def isPrintedChar_def)
  have "stringToLiteralValue (toString r) = intToLiteral (toString r)"
    using p by (rule printed_is_int_literal)
  then have a: "stringToLiteralValue (toString r) = Inl SyntaxError"
    by (simp add: intToLiteral_def toString_def StringToBigInt_fraction)
  have b: "stringToLiteralValue (bigintToString i) = Inr \<lparr>numerator = i, denominator = 1\<rparr>" for i
    using printed_is_int_literal [OF bigintToString_printed] intToLiteral_bigintToString
    by simp
  have "divideBy \<lparr>numerator = numerator r, denominator = 1\<rparr>
          \<lparr>numerator = denominator r, denominator = 1\<rparr> = Inr r"
    using d by (simp add: divideBy_def RationalLiteral_new_def)
  moreover have "equalValueOf r r"
    by (simp add: equalValueOf_def)
  ultimately show ?thesis
    using a b by simp
qed

theorem printed_form_rejected_witness:
  "stringToLiteralValue ''1.5'' = Inr \<lparr>numerator = 15, denominator = 10\<rparr>
   \<and> toString \<lparr>numerator = 15, denominator = 10\<rparr> = ''15/10''
   \<and> stringToLiteralValue ''15/10'' = Inl SyntaxError
   \<and> stringToLiteralValue ''15'' = Inr \<lparr>numerator = 15, denominator = 1\<rparr>
   \<and> stringToLiteralValue ''10'' = Inr \<lparr>numerator = 10, denominator = 1\<rparr>
   \<and> divideBy \<lparr>numerator = 15, denominator = 1\<rparr> \<lparr>numerator = 10, denominator = 1\<rparr>
       = Inr \<lparr>numerator = 15, denominator = 10\<rparr>"
proof -
  have p: "stringToLiteralValue ''1.5'' = Inr \<lparr>numerator = 15, denominator = 10\<rparr>"
    by code_simp
  have t: "toString \<lparr>numerator = 15, denominator = 10\<rparr> = ''15/10''"
    "bigintToString 15 = ''15''" "bigintToString 10 = ''10''"
    by code_simp+
  show ?thesis
    using printed_form_rejected [OF p] p t
    by (simp add: divideBy_def RationalLiteral_new_def)
qed

subsection \<open>The declaration splitter\<close>

lemma filterNotNull_simps [simp]:
  "filterNotNull [] = []"
  "filterNotNull (None # xs) = filterNotNull xs"
  "filterNotNull (Some x # xs) = x # filterNotNull xs"
  by (simp_all add: filterNotNull_def map_filter_simps)

lemma at_index_in_range: "i < length xs \<Longrightarrow> at_index xs i = Some (xs ! i)"
  by (simp add: at_index_def)

lemma tupleSlots_shape:
  assumes "\<forall>d. Some d \<in> set asg \<longrightarrow> (\<exists>decl \<in> set decls. decl_id decl = d)"
    and "k + length asg \<le> length comps"
  shows "\<exists>out ast'. tupleSlots ops src decls doc rw isrc comps k asg ast = Inr (out, ast')
           \<and> map shape (filterNotNull out)
             = map Some (concat (map (slot_spec decls) (zip asg (drop k comps))))"
  using assms
proof (induction asg arbitrary: k ast)
  case Nil
  then show ?case by simp
next
  case (Cons a asg)
  from Cons.prems(2) have k: "k < length comps" and k': "Suc k + length asg \<le> length comps"
    by simp_all
  have dr: "drop k comps = comps ! k # drop (Suc k) comps"
    using k by (simp add: Cons_nth_drop_Suc)
  have at: "at_index comps k = Some (comps ! k)"
    using k by (rule at_index_in_range)
  have rest: "\<forall>d. Some d \<in> set asg \<longrightarrow> (\<exists>decl \<in> set decls. decl_id decl = d)"
    using Cons.prems(1) by simp
  note IH = Cons.IH [OF rest k']
  show ?case
  proof (cases a)
    case None
    show ?thesis
    proof (cases "comps ! k")
      case None
      from IH [of ast] obtain out ast' where
        "tupleSlots ops src decls doc rw isrc comps (Suc k) asg ast = Inr (out, ast')"
        "map shape (filterNotNull out)
           = map Some (concat (map (slot_spec decls) (zip asg (drop (Suc k) comps))))"
        by blast
      then show ?thesis
        using \<open>a = None\<close> None by (simp add: at dr)
    next
      case (Some e)
      obtain newId ast1 where r: "reserveId ops ast = (newId, ast1)"
        by (cases "reserveId ops ast")
      from IH [of ast1] obtain out ast' where
        "tupleSlots ops src decls doc rw isrc comps (Suc k) asg ast1 = Inr (out, ast')"
        "map shape (filterNotNull out)
           = map Some (concat (map (slot_spec decls) (zip asg (drop (Suc k) comps))))"
        by blast
      then show ?thesis
        using \<open>a = None\<close> Some by (simp add: at dr r orUndefined_def)
    qed
  next
    case (Some d)
    with Cons.prems(1) obtain decl0 where "decl0 \<in> set decls" "decl_id decl0 = d"
      by auto
    then obtain decl where f: "find (\<lambda>child. decl_id child = d) decls = Some decl"
      by (cases "find (\<lambda>child. decl_id child = d) decls") (auto simp: find_None_iff)
    obtain newId ast1 where r: "reserveId ops ast = (newId, ast1)"
      by (cases "reserveId ops ast")
    from IH [of ast1] obtain out ast' where
      "tupleSlots ops src decls doc rw isrc comps (Suc k) asg ast1 = Inr (out, ast')"
      "map shape (filterNotNull out)
         = map Some (concat (map (slot_spec decls) (zip asg (drop (Suc k) comps))))"
      by blast
    then show ?thesis
      using Some by (cases "comps ! k") (simp_all add: at dr r f orUndefined_def)
  qed
qed

text \<open>
  Claim C6. For a declaration statement with more than one declaration and a
  TupleExpression initialiser (with a component for every assignment slot, and a
  declaration for every assignment id), \<open>splitDeclaration\<close> succeeds, leaves the pass
  counter alone and returns, in slot order, exactly the statements of \<open>split_spec\<close>:
  nothing for a slot whose id and component are both null, the expression statement of
  the component for a null id, and the single-declaration statement (with the component
  as initialiser when there is one) for a non-null id.
\<close>

theorem splitDeclaration_tuple:
  assumes "1 < length decls"
    and "length asg \<le> length comps"
    and "\<forall>d. Some d \<in> set asg \<longrightarrow> (\<exists>decl \<in> set decls. decl_id decl = d)"
  shows "\<exists>stmts ast'.
           splitDeclaration ops pass
             (VariableDeclarationStatement nid src asg decls
                (Some (TupleExpression ti ts tt comps)) doc rw) ast
             = Inr (stmts, pass, ast')
           \<and> map shape stmts = map Some (split_spec decls asg comps)"
proof -
  from tupleSlots_shape [OF assms(3), of 0 comps ops src doc rw ts ast] assms(2)
  obtain out ast' where
    "tupleSlots ops src decls doc rw ts comps 0 asg ast = Inr (out, ast')"
    "map shape (filterNotNull out) = map Some (concat (map (slot_spec decls) (zip asg comps)))"
    by auto
  then show ?thesis
    using assms(1) by (simp add: split_spec_def)
qed

lemmas sample_defs = sample_decl_def sample_literal_def empty_recorder_def recorder_ops_def
  record_call_def

theorem splitDeclaration_tuple_witness:
  "\<exists>stmts ast'.
     splitDeclaration (recorder_ops Map.empty (\<lambda>t. [])) \<lparr>lastUsedConstantId = 0\<rparr>
       (VariableDeclarationStatement 7 ''7:1:0''
          [Some 1, None, Some 2, None]
          [sample_decl 1 ''a'' ''uint256'' False, sample_decl 2 ''b'' ''uint256'' False]
          (Some (TupleExpression 8 ''8:1:0'' ''tuple()''
                   [Some (sample_literal 3 ''5''), Some (sample_literal 4 ''6''), None, None]))
          (Some ''doc'') None)
       empty_recorder
       = Inr (stmts, \<lparr>lastUsedConstantId = 0\<rparr>, ast')
     \<and> map shape stmts =
         [Some (EmitDeclaration 1 (sample_decl 1 ''a'' ''uint256'' False)
                  (Some (sample_literal 3 ''5''))),
          Some (EmitExpression (sample_literal 4 ''6'')),
          Some (EmitDeclaration 2 (sample_decl 2 ''b'' ''uint256'' False) None)]"
proof -
  let ?decls = "[sample_decl 1 ''a'' ''uint256'' False, sample_decl 2 ''b'' ''uint256'' False]"
  let ?asg = "[Some 1, None, Some 2, None] :: nat option list"
  let ?comps = "[Some (sample_literal 3 ''5''), Some (sample_literal 4 ''6''), None, None]"
  have h1: "1 < length ?decls" by simp
  have h2: "length ?asg \<le> length ?comps" by simp
  have h3: "\<forall>d. Some d \<in> set ?asg \<longrightarrow> (\<exists>decl \<in> set ?decls. decl_id decl = d)"
    by (auto simp: sample_decl_def)
  have s: "split_spec ?decls ?asg ?comps =
         [EmitDeclaration 1 (sample_decl 1 ''a'' ''uint256'' False)
                  (Some (sample_literal 3 ''5'')),
          EmitExpression (sample_literal 4 ''6''),
          EmitDeclaration 2 (sample_decl 2 ''b'' ''uint256'' False) None]"
    by (simp add: split_spec_def sample_decl_def)
  show ?thesis
    using splitDeclaration_tuple [OF h1 h2 h3, of "recorder_ops Map.empty (\<lambda>t. [])"
        "\<lparr>lastUsedConstantId = 0\<rparr>" 7 "''7:1:0''" 8 "''8:1:0''" "''tuple()''"
        "Some ''doc''" None empty_recorder]
    by (simp only: s list.map)
qed

text \<open>
  Claim C7, evaluated on the code. The annotations are attached under the test
  \<open>tupleIndex === 0\<close>. For \<open>(, a, b) = (, 5, 6)\<close> slot 0 emits nothing, so the first
  statement emitted comes from slot 1 and neither emitted statement carries the
  documentation or the raw annotation of the original.
\<close>

theorem splitDeclaration_documentation_lost:
  "emitted_statements
     (splitDeclaration (recorder_ops Map.empty (\<lambda>t. [])) \<lparr>lastUsedConstantId = 0\<rparr>
        (VariableDeclarationStatement 7 ''7:1:0''
           [None, Some 1, Some 2]
           [sample_decl 1 ''a'' ''uint256'' False, sample_decl 2 ''b'' ''uint256'' False]
           (Some (TupleExpression 8 ''8:1:0'' ''tuple()''
                    [None, Some (sample_literal 3 ''5''), Some (sample_literal 4 ''6'')]))
           (Some ''doc'') (Some ''raw''))
        empty_recorder)
   = Inr [VariableDeclarationStatement 1000 ''7:1:0'' [Some 1]
            [sample_decl 1 ''a'' ''uint256'' False] (Some (sample_literal 3 ''5'')) None None,
          VariableDeclarationStatement 1001 ''7:1:0'' [Some 2]
            [sample_decl 2 ''b'' ''uint256'' False] (Some (sample_literal 4 ''6'')) None None]"
  by (simp add: emitted_statements_def sample_defs at_index_def orUndefined_def)

text \<open>When slot 0 does emit a statement, that statement alone carries the annotations.\<close>

lemma splitDeclaration_documentation_first_slot:
  "emitted_statements
     (splitDeclaration (recorder_ops Map.empty (\<lambda>t. [])) \<lparr>lastUsedConstantId = 0\<rparr>
        (VariableDeclarationStatement 7 ''7:1:0''
           [Some 1, Some 2]
           [sample_decl 1 ''a'' ''uint256'' False, sample_decl 2 ''b'' ''uint256'' False]
           (Some (TupleExpression 8 ''8:1:0'' ''tuple()''
                    [Some (sample_literal 3 ''5''), Some (sample_literal 4 ''6'')]))
           (Some ''doc'') (Some ''raw''))
        empty_recorder)
   = Inr [VariableDeclarationStatement 1000 ''7:1:0'' [Some 1]
            [sample_decl 1 ''a'' ''uint256'' False] (Some (sample_literal 3 ''5''))
            (Some ''doc'') (Some ''raw''),
          VariableDeclarationStatement 1001 ''7:1:0'' [Some 2]
            [sample_decl 2 ''b'' ''uint256'' False] (Some (sample_literal 4 ''6'')) None None]"
  by (simp add: emitted_statements_def sample_defs at_index_def orUndefined_def)

text \<open>
  Claim C8, as stated, fails. A statement with two declarations whose initialiser is a
  function call of type \<open>uint256\<close> (not a Tuple type) is returned unchanged: no
  TranspileFailed is raised.
\<close>

theorem splitDeclaration_other_initialiser_counterexample:
  "emitted_statements
     (splitDeclaration
        (recorder_ops [FunctionCall 8 ''8:1:0'' ''uint256'' (OtherExpression 9 [] ''function'') []
                         \<mapsto> IntType 256 False] (\<lambda>t. []))
        \<lparr>lastUsedConstantId = 0\<rparr>
        (VariableDeclarationStatement 7 ''7:1:0'' [Some 1, Some 2]
           [sample_decl 1 ''a'' ''uint256'' False, sample_decl 2 ''b'' ''uint256'' False]
           (Some (FunctionCall 8 ''8:1:0'' ''uint256'' (OtherExpression 9 [] ''function'') []))
           None None)
        empty_recorder)
   = Inr [VariableDeclarationStatement 7 ''7:1:0'' [Some 1, Some 2]
           [sample_decl 1 ''a'' ''uint256'' False, sample_decl 2 ''b'' ''uint256'' False]
           (Some (FunctionCall 8 ''8:1:0'' ''uint256'' (OtherExpression 9 [] ''function'') []))
           None None]"
  by (simp add: emitted_statements_def recorder_ops_def)

text \<open>
  Claim C8, amended. For a declaration statement with more than one declaration:
  an initialiser that is neither a function call nor a TupleExpression fails with
  TranspileFailed; a function call whose return type is not a Tuple type returns the
  statement unchanged; a missing initialiser is an assertion failure.
\<close>

theorem splitDeclaration_other_initialiser:
  assumes "1 < length decls"
  shows "((\<forall>i s t f as. e \<noteq> FunctionCall i s t f as) \<and> (\<forall>i s t cs. e \<noteq> TupleExpression i s t cs)
           \<longrightarrow> splitDeclaration ops pass
                 (VariableDeclarationStatement nid src asg decls (Some e) doc rw) ast
               = Inl TranspileFailedError)
       \<and> (getNodeType ops (FunctionCall ci cs ct callee args) = Inr returnType
            \<and> (\<forall>elements. returnType \<noteq> TupleType elements)
           \<longrightarrow> splitDeclaration ops pass
                 (VariableDeclarationStatement nid src asg decls
                    (Some (FunctionCall ci cs ct callee args)) doc rw) ast
               = Inr ([VariableDeclarationStatement nid src asg decls
                         (Some (FunctionCall ci cs ct callee args)) doc rw], pass, ast))
       \<and> splitDeclaration ops pass
            (VariableDeclarationStatement nid src asg decls None doc rw) ast
          = Inl AssertionFailure"
proof -
  from assms have n: "length decls \<noteq> 1" by simp
  have a: "splitDeclaration ops pass
             (VariableDeclarationStatement nid src asg decls (Some e) doc rw) ast
           = Inl TranspileFailedError"
    if "\<forall>i s t f as. e \<noteq> FunctionCall i s t f as" "\<forall>i s t cs. e \<noteq> TupleExpression i s t cs"
    using that n by (cases e) simp_all
  have b: "splitDeclaration ops pass
             (VariableDeclarationStatement nid src asg decls
                (Some (FunctionCall ci cs ct callee args)) doc rw) ast
           = Inr ([VariableDeclarationStatement nid src asg decls
                     (Some (FunctionCall ci cs ct callee args)) doc rw], pass, ast)"
    if "getNodeType ops (FunctionCall ci cs ct callee args) = Inr returnType"
      "\<forall>elements. returnType \<noteq> TupleType elements"
    using that n by (cases returnType) simp_all
  show ?thesis
    using a b n by simp
qed

theorem splitDeclaration_other_initialiser_witness:
  "splitDeclaration (recorder_ops Map.empty (\<lambda>t. [])) \<lparr>lastUsedConstantId = 0\<rparr>
     (VariableDeclarationStatement 7 ''7:1:0'' [Some 1, Some 2]
        [sample_decl 1 ''a'' ''uint256'' False, sample_decl 2 ''b'' ''uint256'' False]
        (Some (Identifier 8 ''8:1:0'' ''uint256'' ''c'' 3)) None None)
     empty_recorder
   = Inl TranspileFailedError
   \<and> splitDeclaration
       (recorder_ops [FunctionCall 8 ''8:1:0'' ''uint256'' (OtherExpression 9 [] ''function'') []
                        \<mapsto> IntType 256 False] (\<lambda>t. []))
       \<lparr>lastUsedConstantId = 0\<rparr>
       (VariableDeclarationStatement 7 ''7:1:0'' [Some 1, Some 2]
          [sample_decl 1 ''a'' ''uint256'' False, sample_decl 2 ''b'' ''uint256'' False]
          (Some (FunctionCall 8 ''8:1:0'' ''uint256'' (OtherExpression 9 [] ''function'') []))
          None None)
       empty_recorder
     = Inr ([VariableDeclarationStatement 7 ''7:1:0'' [Some 1, Some 2]
               [sample_decl 1 ''a'' ''uint256'' False, sample_decl 2 ''b'' ''uint256'' False]
               (Some (FunctionCall 8 ''8:1:0'' ''uint256''
                        (OtherExpression 9 [] ''function'') []))
               None None],
            \<lparr>lastUsedConstantId = 0\<rparr>, empty_recorder)"
proof -
  let ?decls = "[sample_decl 1 ''a'' ''uint256'' False, sample_decl 2 ''b'' ''uint256'' False]"
  let ?call = "FunctionCall 8 ''8:1:0'' ''uint256'' (OtherExpression 9 [] ''function'') []"
  have h: "1 < length ?decls" by simp
  have t: "getNodeType (recorder_ops [?call \<mapsto> IntType 256 False] (\<lambda>t. [])) ?call
             = Inr (IntType 256 False)"
    by (simp add: recorder_ops_def)
  show ?thesis
    using splitDeclaration_other_initialiser [OF h,
        where e = "Identifier 8 ''8:1:0'' ''uint256'' ''c'' 3"
        and ops = "recorder_ops Map.empty (\<lambda>t. [])" and pass = "\<lparr>lastUsedConstantId = 0\<rparr>"
        and nid = 7 and src = "''7:1:0''" and asg = "[Some 1, Some 2]" and doc = None
        and rw = None and ast = empty_recorder]
      splitDeclaration_other_initialiser [OF h,
        where ops = "recorder_ops [?call \<mapsto> IntType 256 False] (\<lambda>t. [])"
        and ci = 8 and cs = "''8:1:0''" and ct = "''uint256''"
        and callee = "OtherExpression 9 [] ''function''" and args = "[]"
        and returnType = "IntType 256 False"
        and pass = "\<lparr>lastUsedConstantId = 0\<rparr>"
        and nid = 7 and src = "''7:1:0''" and asg = "[Some 1, Some 2]" and doc = None
        and rw = None and ast = empty_recorder] t
    by simp
qed

subsection \<open>The storage-access pass\<close>

text \<open>
  Claim C3. For an Assignment whose left-hand side is an Identifier referencing a state
  VariableDeclaration: when the containing contract's allocation table has the entry
  \<open>slot\<close>, \<open>visitAssignment\<close> reserves an id, asks \<open>storageWrite\<close> for the helper call on
  the declaration, the Number literal of text \<open>slot\<close> and the original right-hand side,
  replaces the assignment with that call and then visits the right-hand side only; when
  there is no containing contract, or the containing contract's table has no entry for
  the declaration, it fails with an assertion failure.
\<close>

theorem visitAssignment_state_variable:
  assumes "vReferencedDeclaration ops (Identifier li ls lt ln lr) ast
             = Some (VariableDeclarationNode decl)"
    and "stateVariable decl"
  shows "(closestCairoContract ops
            (ExpressionNode (Assignment i s t oper (Identifier li ls lt ln lr) rhs)) ast
            = Some cairoContract
          \<and> storageAllocations cairoContract decl = Some slot
          \<and> reserveId ops ast = (newId, astA)
          \<and> storageWrite ops decl
               (Literal newId [] (''int_const '' @ natToString slot) Number
                  (toHexString ops (natToString slot)) (natToString slot))
               rhs astA = Inr (call, astB)
          \<and> replaceNode ops
               (ExpressionNode (Assignment i s t oper (Identifier li ls lt ln lr) rhs))
               (ExpressionNode call) astB = Inr astC
          \<longrightarrow> visitAssignment ops (Assignment i s t oper (Identifier li ls lt ln lr) rhs) ast
              = dispatchVisit ops (ExpressionNode rhs) astC)
       \<and> (closestCairoContract ops
            (ExpressionNode (Assignment i s t oper (Identifier li ls lt ln lr) rhs)) ast
            = None
          \<longrightarrow> visitAssignment ops (Assignment i s t oper (Identifier li ls lt ln lr) rhs) ast
              = Inl AssertionFailure)
       \<and> (closestCairoContract ops
            (ExpressionNode (Assignment i s t oper (Identifier li ls lt ln lr) rhs)) ast
            = Some otherContract
          \<and> storageAllocations otherContract decl = None
          \<longrightarrow> visitAssignment ops (Assignment i s t oper (Identifier li ls lt ln lr) rhs) ast
              = Inl AssertionFailure)"
  using assms
  by (simp add: writeToStateVariable_def lookupAllocation_def slotLiteral_def)

lemma natToString_7: "natToString 7 = ''7''"
  by code_simp

theorem visitAssignment_state_variable_witness:
  "map_sum id calls
     (visitAssignment (recorder_ops Map.empty (\<lambda>t. [])) sample_assignment
        (sample_context
           (Some \<lparr>storageAllocations = [sample_decl 5 ''x'' ''uint256'' True \<mapsto> 7]\<rparr>)))
   = Inr [StorageWrite (sample_decl 5 ''x'' ''uint256'' True)
            (Literal 1000 [] ''int_const 7'' Number ''7'' ''7'') (sample_literal 22 ''5''),
          ReplaceNode (ExpressionNode sample_assignment)
            (ExpressionNode
               (FunctionCall 1001 [] ''tuple()''
                  (Identifier 1002 [] ''function'' ''storageWrite'' 0)
                  [Literal 1000 [] ''int_const 7'' Number ''7'' ''7'', sample_literal 22 ''5''])),
          DispatchVisit (ExpressionNode (sample_literal 22 ''5''))]
   \<and> visitAssignment (recorder_ops Map.empty (\<lambda>t. [])) sample_assignment (sample_context None)
     = Inl AssertionFailure
   \<and> visitAssignment (recorder_ops Map.empty (\<lambda>t. [])) sample_assignment
       (sample_context
          (Some \<lparr>storageAllocations = [sample_decl 6 ''y'' ''uint256'' True \<mapsto> 3]\<rparr>))
     = Inl AssertionFailure"
proof -
  let ?ops = "recorder_ops Map.empty (\<lambda>t. [])"
  let ?x = "sample_decl 5 ''x'' ''uint256'' True"
  let ?c = "\<lparr>storageAllocations = [?x \<mapsto> 7]\<rparr>"
  let ?lit = "Literal 1000 [] ''int_const 7'' Number ''7'' ''7''"
  let ?call = "FunctionCall 1001 [] ''tuple()''
                 (Identifier 1002 [] ''function'' ''storageWrite'' 0) [?lit, sample_literal 22 ''5'']"
  let ?r1 = "(sample_context (Some ?c))\<lparr>nextId := 1001\<rparr>"
  let ?r2 = "?r1\<lparr>nextId := 1003,
                  calls := [StorageWrite ?x ?lit (sample_literal 22 ''5'')]\<rparr>"
  let ?r3 = "?r2\<lparr>calls := [StorageWrite ?x ?lit (sample_literal 22 ''5''),
                            ReplaceNode (ExpressionNode sample_assignment) (ExpressionNode ?call)]\<rparr>"
  have ref: "vReferencedDeclaration ?ops (Identifier 21 ''20:1:0'' ''uint256'' ''x'' 5) ctx
               = Some (VariableDeclarationNode ?x)"
    if "referenced ctx 5 = Some (VariableDeclarationNode ?x)" for ctx
    using that by (simp add: recorder_ops_def)
  have st: "stateVariable ?x"
    by (simp add: sample_decl_def)
  have ok: "visitAssignment ?ops sample_assignment (sample_context (Some ?c))
              = dispatchVisit ?ops (ExpressionNode (sample_literal 22 ''5'')) ?r3"
    unfolding sample_assignment_def
    by (rule visitAssignment_state_variable [THEN conjunct1, rule_format,
          where decl = ?x and cairoContract = ?c and slot = 7 and newId = 1000 and astA = ?r1
            and call = ?call and astB = ?r2])
      (simp_all add: recorder_ops_def sample_context_def record_call_def sample_decl_def
        natToString_7)
  have nocontract: "visitAssignment ?ops sample_assignment (sample_context None)
                      = Inl AssertionFailure"
    unfolding sample_assignment_def
    by (rule visitAssignment_state_variable [THEN conjunct2, THEN conjunct1, rule_format,
          where decl = ?x])
      (simp_all add: recorder_ops_def sample_context_def sample_decl_def)
  let ?d = "\<lparr>storageAllocations = [sample_decl 6 ''y'' ''uint256'' True \<mapsto> 3]\<rparr>"
  have ne: "?x \<noteq> sample_decl 6 ''y'' ''uint256'' True"
    by (simp add: sample_decl_def)
  have noentry: "visitAssignment ?ops sample_assignment (sample_context (Some ?d))
                   = Inl AssertionFailure"
    unfolding sample_assignment_def
    by (rule visitAssignment_state_variable [THEN conjunct2, THEN conjunct2, rule_format,
          where decl = ?x and otherContract = ?d])
      (simp_all add: recorder_ops_def sample_context_def ne, simp add: sample_decl_def)
  show ?thesis
    unfolding ok nocontract noentry
    by (simp add: recorder_ops_def record_call_def sample_context_def)
qed

end
